theory Spec2Isabelle
  imports Main
begin

section \<open>Values that may be deferred\<close>

text \<open>
  A construct is identified by its path in the construct tree: the list of ids from the
  construct itself up to (and excluding) the root, so the root is the empty path and the
  child \<open>i\<close> of the construct at \<open>p\<close> is at \<open>i # p\<close>. Two handles denote the same object
  exactly when their paths are equal.
\<close>

type_synonym path = "string list"

text \<open>
  Modelled from the spec: the token machinery of the core library is not part of the
  source file. A region is either concretely known or a deferred token
  (\<open>Value<T> = Known(T) | Deferred(handle)\<close>); \<open>Token.isUnresolved\<close> reads the tag.
\<close>

datatype region = Known string | Deferred nat

fun isUnresolved :: "region \<Rightarrow> bool" where
  "isUnresolved (Known r) = False"
| "isUnresolved (Deferred h) = True"

datatype IVersion = CurrentVersion path  \<comment> \<open>\<open>fn.currentVersion\<close> of the Function at the path\<close>

datatype IRole = RoleAt path | ImportedRole string

record ArnComponents =
  service :: string
  arn_region :: string
  resource :: string
  resourceName :: string

text \<open>
  Modelled from the spec: a deferred value is ``represented symbolically during graph
  construction''. The string-typed attributes the source file reads from its collaborators
  (a function's name, a version's \<open>edgeArn\<close>, a formatted ARN, an attribute of a custom
  resource, a provider's service token) are such values.
\<close>

datatype strval =
    Literal string
  | FunctionNameOf path              \<comment> \<open>\<open>fn.functionName\<close>\<close>
  | EdgeArnOf IVersion               \<comment> \<open>\<open>version.edgeArn\<close>\<close>
  | FormatArn path ArnComponents     \<comment> \<open>\<open>stack.formatArn(components)\<close>\<close>
  | AttString path string            \<comment> \<open>\<open>resource.getAttString(name)\<close>\<close>
  | ServiceToken path string         \<comment> \<open>token of the provider registered for a stack and a tag\<close>

section \<open>Properties of the collaborating constructs\<close>

datatype synthesizer =
    DefaultStackSynthesizer string string    \<comment> \<open>deployRoleArn, cloudFormationExecutionRoleArn\<close>
  | BootstraplessSynthesizer string string
  | LegacyStackSynthesizer

record StackProps =
  synthesizer :: "synthesizer option"
  env :: region

record FunctionProps =
  runtime :: string
  handler :: string
  code :: string
  vpc :: "string option"
  role :: "IRole option"

datatype principal = ServicePrincipal string

datatype managedPolicy = AwsManagedPolicyName string

record PolicyStatement =
  Effect :: string
  Resource :: strval
  Action :: "string list"

record CustomResourceProviderProps =
  codeDirectory :: string
  provider_runtime :: string
  policyStatements :: "PolicyStatement list"

record CustomResourceProperties =
  Region :: string
  ParameterName :: string
  RefreshEachDeploy :: string

record AliasOptions =
  description :: "string option"
  provisionedConcurrentExecutions :: "nat option"

record MetricOptions =
  period :: "nat option"
  statistic :: "string option"
  label :: "string option"
  metric_region :: "string option"

datatype construct =
    Stage                                  \<comment> \<open>an App or a Stage\<close>
  | Stack region synthesizer
  | CrossRegionLambdaStack StackProps
  | EdgeFunctionResource
  | Role "principal list" "managedPolicy list"   \<comment> \<open>assumedBy (composite), managedPolicies\<close>
  | Function FunctionProps
  | StringParameter string strval          \<comment> \<open>parameterName, stringValue\<close>
  | CustomResource string strval CustomResourceProperties
  | Alias string IVersion AliasOptions     \<comment> \<open>aliasName, version, the other options\<close>
  | Other

section \<open>The graph under construction\<close>

record graph =
  tree :: "path \<Rightarrow> construct option"
  dependencies :: "(path \<times> path) list"       \<comment> \<open>(consumer stack, provider stack)\<close>
  providers :: "path \<times> string \<Rightarrow> CustomResourceProviderProps option"   \<comment> \<open>by stack and tag\<close>

datatype error =
    Error string         \<comment> \<open>\<open>throw new Error(message)\<close> in the source file\<close>
  | TypeError string     \<comment> \<open>calling a method the object does not have\<close>
  | DuplicateName path   \<comment> \<open>the tree refuses a second child of the same name\<close>
  | NoStackFound path    \<comment> \<open>a resource created outside every stack\<close>

text \<open>
  A construction step takes the graph and returns a value or an error, with the graph as
  it is at that moment: what was attached before a throw stays attached.
\<close>

type_synonym 'a build = "graph \<Rightarrow> (error + 'a) \<times> graph"

definition returns :: "'a \<Rightarrow> 'a build" where
  "returns x g = (Inr x, g)"

definition andThen :: "'a build \<Rightarrow> ('a \<Rightarrow> 'b build) \<Rightarrow> 'b build" where
  "andThen m f g = (case m g of (Inl e, g') \<Rightarrow> (Inl e, g') | (Inr x, g') \<Rightarrow> f x g')"

text \<open>
  Modelled from the spec: the construct tree of the core library (``deterministic child
  lookup'', ``application container root lookup'', ``cross-stack build-order dependency
  registration'') is not part of the source file. Names are unique among siblings, which
  is what makes a derived name usable as a lookup key.
\<close>

definition root :: path where
  "root = []"

definition isStage :: "construct \<Rightarrow> bool" where
  "isStage c = (case c of Stage \<Rightarrow> True | _ \<Rightarrow> False)"

definition tryFindChild :: "graph \<Rightarrow> path \<Rightarrow> string \<Rightarrow> path option" where
  "tryFindChild g p id' = (if tree g (id' # p) = None then None else Some (id' # p))"

definition Construct_new :: "path \<Rightarrow> string \<Rightarrow> construct \<Rightarrow> path build" where
  "Construct_new scope id' c g =
     (if tree g (id' # scope) \<noteq> None then (Inl (DuplicateName (id' # scope)), g)
      else (Inr (id' # scope), g\<lparr>tree := (tree g)(id' # scope \<mapsto> c)\<rparr>))"

definition addDependency :: "path \<Rightarrow> path \<Rightarrow> unit build" where
  "addDependency consumer provider g =
     (Inr (), g\<lparr>dependencies := dependencies g @ [(consumer, provider)]\<rparr>)"

definition stack_at :: "(path \<Rightarrow> construct option) \<Rightarrow> path \<Rightarrow> (path \<times> region \<times> synthesizer option) option" where
  "stack_at t p =
     (case t p of
        Some (Stack r syn) \<Rightarrow> Some (p, r, Some syn)
      | Some (CrossRegionLambdaStack sp) \<Rightarrow> Some (p, env sp, synthesizer sp)
      | _ \<Rightarrow> None)"

text \<open>
  \<open>Stack.of\<close>, of the same library: the nearest stack at or above a construct, with its
  region and synthesizer.
\<close>

fun stack_of :: "(path \<Rightarrow> construct option) \<Rightarrow> path \<Rightarrow> (path \<times> region \<times> synthesizer option) option" where
  "stack_of t [] = stack_at t []"
| "stack_of t (i # p) = (case stack_at t (i # p) of Some s \<Rightarrow> Some s | None \<Rightarrow> stack_of t p)"

record ResourceBase =
  node :: path                                \<comment> \<open>\<open>this.node\<close>\<close>
  stack :: path                               \<comment> \<open>\<open>this.stack\<close>\<close>
  stack_region :: region                      \<comment> \<open>\<open>this.stack.region\<close>\<close>
  stack_synthesizer :: "synthesizer option"   \<comment> \<open>\<open>this.stack.synthesizer\<close>\<close>
  env_region :: region                        \<comment> \<open>\<open>this.env.region\<close>\<close>

text \<open>
  \<open>super(scope, id)\<close>, the constructor of \<open>Resource\<close> in the same library: the resource
  is attached to its scope, then its stack is looked up. No environment is passed, so the
  resource's environment is its stack's.
\<close>

definition Resource_new :: "path \<Rightarrow> string \<Rightarrow> construct \<Rightarrow> ResourceBase build" where
  "Resource_new scope id' c =
     andThen (Construct_new scope id' c) (\<lambda>p g.
       case stack_of (tree g) p of
         None \<Rightarrow> (Inl (NoStackFound p), g)
       | Some (st, r, syn) \<Rightarrow>
           (Inr \<lparr>node = p, stack = st, stack_region = r, stack_synthesizer = syn, env_region = r\<rparr>, g))"

text \<open>
  Modelled from the spec: the provider registry \<open>CustomResourceProvider.getOrCreate\<close> is
  not part of the source file. ``A single resolver-provider is shared (find-or-create) per
  caller scope and target-resource-type pair'': the caller scope is the stack of the
  construct passed first. A provider already registered for that stack and the tag is
  returned as it is, and the properties passed with the call are dropped; otherwise one is
  registered with the properties passed.
\<close>

definition getOrCreate :: "ResourceBase \<Rightarrow> string \<Rightarrow> CustomResourceProviderProps \<Rightarrow> strval build" where
  "getOrCreate scope uniqueid props g =
     (case providers g (stack scope, uniqueid) of
        Some existing \<Rightarrow> (Inr (ServiceToken (stack scope) uniqueid), g)
      | None \<Rightarrow> (Inr (ServiceToken (stack scope) uniqueid),
                 g\<lparr>providers := (providers g)((stack scope, uniqueid) \<mapsto> props)\<rparr>))"

section \<open>The source file\<close>

text \<open>
  What the file reads from its surroundings: \<open>Date.now().toString()\<close>,
  \<open>path.join(__dirname, 'edge-function')\<close>, and \<open>extractQualifierFromArn\<close> of
  \<open>lambda-version\<close>.
\<close>

record Host =
  now_string :: string
  edge_function_dir :: string
  extractQualifierFromArn :: "strval \<Rightarrow> strval"

definition EDGE_REGION :: string where
  "EDGE_REGION = ''us-east-1''"

record FunctionConfig =
  cfg_edgeFunction :: path
  cfg_currentVersion :: IVersion
  cfg_edgeArn :: strval
  cfg_functionStack :: path

record EdgeFunction = ResourceBase +
  edgeArn :: strval
  functionName :: strval
  functionArn :: strval
  grantPrincipal :: "IRole option"
  isBoundToVpc :: bool
  lambda :: path
  permissionsNode :: path
  facade_role :: "IRole option"             \<comment> \<open>\<open>role?\<close>: declared, never assigned\<close>
  version :: strval
  functionStack :: path
  currentVersion :: IVersion

definition defaultLambdaRole :: "path \<Rightarrow> string \<Rightarrow> IRole build" where
  "defaultLambdaRole scope id' =
     andThen (Construct_new scope (id' @ ''ServiceRole'')
                (Role [ServicePrincipal ''lambda.amazonaws.com'',
                       ServicePrincipal ''edgelambda.amazonaws.com'']
                      [AwsManagedPolicyName ''service-role/AWSLambdaBasicExecutionRole'']))
       (\<lambda>p. returns (RoleAt p))"

text \<open>\<open>props.role ?? defaultLambdaRole(scope, id)\<close>\<close>

definition roleOrDefault :: "FunctionProps \<Rightarrow> path \<Rightarrow> string \<Rightarrow> IRole build" where
  "roleOrDefault props scope id' =
     (case role props of Some r \<Rightarrow> returns r | None \<Rightarrow> defaultLambdaRole scope id')"

definition createInRegionFunction :: "ResourceBase \<Rightarrow> string \<Rightarrow> FunctionProps \<Rightarrow> FunctionConfig build" where
  "createInRegionFunction this id' props =
     andThen (roleOrDefault props (node this) id') (\<lambda>role'.
     andThen (Construct_new (node this) ''Fn'' (Function (props\<lparr>role := Some role'\<rparr>))) (\<lambda>edgeFunction.
     returns \<lparr>cfg_edgeFunction = edgeFunction,
              cfg_currentVersion = CurrentVersion edgeFunction,
              cfg_edgeArn = EdgeArnOf (CurrentVersion edgeFunction),
              cfg_functionStack = stack this\<rparr>))"

definition addEdgeFunction :: "path \<Rightarrow> string \<Rightarrow> string \<Rightarrow> FunctionProps \<Rightarrow> (path \<times> IVersion) build" where
  "addEdgeFunction self id' parameterName props =
     andThen (roleOrDefault props self id') (\<lambda>role'.
     andThen (Construct_new self id' (Function (props\<lparr>role := Some role'\<rparr>))) (\<lambda>edgeFunction.
     andThen (Construct_new edgeFunction ''Parameter''
                (StringParameter parameterName (EdgeArnOf (CurrentVersion edgeFunction)))) (\<lambda>parameter.
     returns (edgeFunction, CurrentVersion edgeFunction))))"

text \<open>
  \<open>this.stack.synthesizer instanceof DefaultStackSynthesizer\<close> holds for the default
  synthesizer and for its subclass, the bootstrapless one.
\<close>

definition getCrossRegionSupportSynthesizer :: "ResourceBase \<Rightarrow> synthesizer option" where
  "getCrossRegionSupportSynthesizer this =
     (case stack_synthesizer this of
        Some (DefaultStackSynthesizer deployRoleArn cloudFormationExecutionRoleArn) \<Rightarrow>
          Some (BootstraplessSynthesizer deployRoleArn cloudFormationExecutionRoleArn)
      | Some (BootstraplessSynthesizer deployRoleArn cloudFormationExecutionRoleArn) \<Rightarrow>
          Some (BootstraplessSynthesizer deployRoleArn cloudFormationExecutionRoleArn)
      | _ \<Rightarrow> None)"

definition edgeStackId :: "string \<Rightarrow> string" where
  "edgeStackId region = ''edge-lambda-stack-'' @ region"

definition edgeStack :: "ResourceBase \<Rightarrow> path build" where
  "edgeStack this g =
     (case tree g root of
        None \<Rightarrow> (Inl (Error ''stacks which use EdgeFunctions must be part of a CDK app or stage''), g)
      | Some stage \<Rightarrow>
          if \<not> isStage stage
          then (Inl (Error ''stacks which use EdgeFunctions must be part of a CDK app or stage''), g)
          else (case env_region this of
                  Deferred h \<Rightarrow>
                    (Inl (Error ''stacks which use EdgeFunctions must have an explicitly set region''), g)
                | Known region \<Rightarrow>
                    (case tryFindChild g root (edgeStackId region) of
                       Some found \<Rightarrow> (Inr found, g)
                     | None \<Rightarrow>
                         Construct_new root (edgeStackId region)
                           (CrossRegionLambdaStack
                              \<lparr>synthesizer = getCrossRegionSupportSynthesizer this,
                               env = Known EDGE_REGION\<rparr>) g)))"

text \<open>
  The child found under the derived name is cast to \<open>CrossRegionLambdaStack\<close> without a
  check; calling \<open>addEdgeFunction\<close> on anything else is a type error at run time.
\<close>

definition call_addEdgeFunction :: "path \<Rightarrow> string \<Rightarrow> string \<Rightarrow> FunctionProps \<Rightarrow> (path \<times> IVersion) build" where
  "call_addEdgeFunction functionStack' id' parameterName props g =
     (case tree g functionStack' of
        Some (CrossRegionLambdaStack sp) \<Rightarrow> addEdgeFunction functionStack' id' parameterName props g
      | _ \<Rightarrow> (Inl (TypeError ''functionStack.addEdgeFunction is not a function''), g))"

definition parameterName :: "string \<Rightarrow> string" where
  "parameterName id' = ''EdgeFunctionArn'' @ id'"

definition resourceType :: string where
  "resourceType = ''Custom::CrossRegionStringParameterReader''"

text \<open>\<open>this.stack.formatArn({ service: 'ssm', region: EDGE_REGION, ... })\<close>\<close>

definition parameterArn :: "path \<Rightarrow> string \<Rightarrow> strval" where
  "parameterArn stack' id' =
     FormatArn stack'
       \<lparr>service = ''ssm'', arn_region = EDGE_REGION, resource = ''parameter'',
        resourceName = parameterName id'\<rparr>"

definition createCrossRegionFunction :: "Host \<Rightarrow> ResourceBase \<Rightarrow> string \<Rightarrow> FunctionProps \<Rightarrow> FunctionConfig build" where
  "createCrossRegionFunction h this id' props =
     andThen (edgeStack this) (\<lambda>functionStack'.
     andThen (addDependency (stack this) functionStack') (\<lambda>u.
     andThen (call_addEdgeFunction functionStack' id' (parameterName id') props) (\<lambda>(edgeFunction, currentVersion').
     andThen (getOrCreate this resourceType
                \<lparr>codeDirectory = edge_function_dir h,
                 provider_runtime = ''nodejs12.x'',
                 policyStatements =
                   [\<lparr>Effect = ''Allow'',
                     Resource = parameterArn (stack this) id',
                     Action = [''ssm:GetParameter'']\<rparr>]\<rparr>) (\<lambda>serviceToken.
     andThen (Construct_new (node this) ''ArnReader''
                (CustomResource resourceType serviceToken
                   \<lparr>Region = EDGE_REGION,
                    ParameterName = parameterName id',
                    RefreshEachDeploy = now_string h\<rparr>)) (\<lambda>resource'.
     returns \<lparr>cfg_edgeFunction = edgeFunction,
              cfg_currentVersion = currentVersion',
              cfg_edgeArn = AttString resource' ''FunctionArn'',
              cfg_functionStack = functionStack'\<rparr>)))))"

text \<open>\<open>this.lambda.role\<close>: the role the underlying function was given.\<close>

definition Function_role :: "graph \<Rightarrow> path \<Rightarrow> IRole option" where
  "Function_role g fn = (case tree g fn of Some (Function props) \<Rightarrow> role props | _ \<Rightarrow> None)"

definition regionIsUsEast1 :: "ResourceBase \<Rightarrow> bool" where
  "regionIsUsEast1 this = (\<not> isUnresolved (stack_region this) \<and> stack_region this = Known ''us-east-1'')"

definition EdgeFunction_new :: "Host \<Rightarrow> path \<Rightarrow> string \<Rightarrow> FunctionProps \<Rightarrow> EdgeFunction build" where
  "EdgeFunction_new h scope id' props =
     andThen (Resource_new scope id' EdgeFunctionResource) (\<lambda>this.
     andThen (if regionIsUsEast1 this
              then createInRegionFunction this id' props
              else createCrossRegionFunction h this id' props) (\<lambda>cfg g.
       (Inr \<lparr>node = node this, stack = stack this, stack_region = stack_region this,
             stack_synthesizer = stack_synthesizer this, env_region = env_region this,
             edgeArn = cfg_edgeArn cfg,
             functionName = FunctionNameOf (cfg_edgeFunction cfg),
             functionArn = cfg_edgeArn cfg,
             grantPrincipal = Function_role g (cfg_edgeFunction cfg),
             isBoundToVpc = False,
             lambda = cfg_edgeFunction cfg,
             permissionsNode = cfg_edgeFunction cfg,
             facade_role = None,
             version = extractQualifierFromArn h (cfg_edgeArn cfg),
             functionStack = cfg_functionStack cfg,
             currentVersion = cfg_currentVersion cfg\<rparr>, g)))"

text \<open>\<open>{ aliasName, version: this.currentVersion, ...options }\<close>, options defaulting to \<open>{}\<close>.\<close>

definition addAlias :: "EdgeFunction \<Rightarrow> string \<Rightarrow> AliasOptions option \<Rightarrow> path build" where
  "addAlias this aliasName options =
     Construct_new (functionStack this) (''Alias'' @ aliasName)
       (Alias aliasName (currentVersion this)
          (case options of
             None \<Rightarrow> \<lparr>description = None, provisionedConcurrentExecutions = None\<rparr>
           | Some given \<Rightarrow> given))"

text \<open>The two getters that only throw; \<open>'c\<close> stands for \<open>ec2.Connections\<close>.\<close>

definition connections :: "EdgeFunction \<Rightarrow> error + 'c" where
  "connections this = Inl (Error ''Lambda@Edge does not support connections'')"

definition latestVersion :: "EdgeFunction \<Rightarrow> error + IVersion" where
  "latestVersion this = Inl (Error ''$LATEST function version cannot be used for Lambda@Edge'')"

text \<open>\<open>{ ...props, region: EdgeFunction.EDGE_REGION }\<close>, where \<open>props\<close> may be undefined.\<close>

definition withEdgeRegion :: "MetricOptions option \<Rightarrow> MetricOptions" where
  "withEdgeRegion props =
     (case props of
        None \<Rightarrow> \<lparr>period = None, statistic = None, label = None, metric_region = Some EDGE_REGION\<rparr>
      | Some given \<Rightarrow> given\<lparr>metric_region := Some EDGE_REGION\<rparr>)"

text \<open>
  The metric accessors forward to the underlying function, whose own accessor (of
  \<open>function-base\<close>) is the first argument.
\<close>

definition metric :: "(path \<Rightarrow> string \<Rightarrow> MetricOptions \<Rightarrow> 'm) \<Rightarrow> EdgeFunction \<Rightarrow> string \<Rightarrow> MetricOptions option \<Rightarrow> 'm" where
  "metric lambda_metric this metricName props = lambda_metric (lambda this) metricName (withEdgeRegion props)"

definition metricDuration :: "(path \<Rightarrow> MetricOptions \<Rightarrow> 'm) \<Rightarrow> EdgeFunction \<Rightarrow> MetricOptions option \<Rightarrow> 'm" where
  "metricDuration lambda_metricDuration this props = lambda_metricDuration (lambda this) (withEdgeRegion props)"

definition metricErrors :: "(path \<Rightarrow> MetricOptions \<Rightarrow> 'm) \<Rightarrow> EdgeFunction \<Rightarrow> MetricOptions option \<Rightarrow> 'm" where
  "metricErrors lambda_metricErrors this props = lambda_metricErrors (lambda this) (withEdgeRegion props)"

definition metricInvocations :: "(path \<Rightarrow> MetricOptions \<Rightarrow> 'm) \<Rightarrow> EdgeFunction \<Rightarrow> MetricOptions option \<Rightarrow> 'm" where
  "metricInvocations lambda_metricInvocations this props = lambda_metricInvocations (lambda this) (withEdgeRegion props)"

definition metricThrottles :: "(path \<Rightarrow> MetricOptions \<Rightarrow> 'm) \<Rightarrow> EdgeFunction \<Rightarrow> MetricOptions option \<Rightarrow> 'm" where
  "metricThrottles lambda_metricThrottles this props = lambda_metricThrottles (lambda this) (withEdgeRegion props)"

section \<open>Vocabulary of the statements\<close>

text \<open>The root of the tree is a staged application (\<open>Stage.isStage(this.node.root)\<close>).\<close>

definition rootIsStage :: "graph \<Rightarrow> bool" where
  "rootIsStage g = (case tree g root of Some c \<Rightarrow> isStage c | None \<Rightarrow> False)"

text \<open>
  A graph built by constructors only: every construct but the root has its parent in the
  tree, and every registered provider belongs to a construct of the tree. A construct that
  is not in the tree yet therefore has no children and no provider.
\<close>

definition well_formed :: "graph \<Rightarrow> bool" where
  "well_formed g \<longleftrightarrow>
     (\<forall>i p. tree g (i # p) \<noteq> None \<longrightarrow> tree g p \<noteq> None) \<and>
     (\<forall>p u. providers g (p, u) \<noteq> None \<longrightarrow> tree g p \<noteq> None)"

text \<open>What \<open>defaultLambdaRole\<close> creates, and what a cross-region facade registers and creates.\<close>

abbreviation defaultRole :: construct where
  "defaultRole \<equiv>
     Role [ServicePrincipal ''lambda.amazonaws.com'', ServicePrincipal ''edgelambda.amazonaws.com'']
          [AwsManagedPolicyName ''service-role/AWSLambdaBasicExecutionRole'']"

abbreviation readerProvider :: "Host \<Rightarrow> path \<Rightarrow> string \<Rightarrow> CustomResourceProviderProps" where
  "readerProvider h stack' i \<equiv>
     \<lparr>codeDirectory = edge_function_dir h, provider_runtime = ''nodejs12.x'',
      policyStatements = [\<lparr>Effect = ''Allow'', Resource = parameterArn stack' i,
                           Action = [''ssm:GetParameter'']\<rparr>]\<rparr>"

abbreviation readerResource :: "Host \<Rightarrow> path \<Rightarrow> string \<Rightarrow> construct" where
  "readerResource h stack' i \<equiv>
     CustomResource resourceType (ServiceToken stack' resourceType)
       \<lparr>Region = EDGE_REGION, ParameterName = parameterName i, RefreshEachDeploy = now_string h\<rparr>"

text \<open>
  An application with a stack in each of two other regions, one in the edge region, and
  one whose region is left to the deployment.
\<close>

definition example_app :: graph where
  "example_app =
     \<lparr>tree = [[] \<mapsto> Stage,
              [''StackA''] \<mapsto> Stack (Known ''eu-west-1'') LegacyStackSynthesizer,
              [''StackB''] \<mapsto> Stack (Known ''ap-south-1'') (DefaultStackSynthesizer ''deploy'' ''exec''),
              [''StackE''] \<mapsto> Stack (Known ''us-east-1'') LegacyStackSynthesizer,
              [''StackT''] \<mapsto> Stack (Deferred 0) LegacyStackSynthesizer],
      dependencies = [],
      providers = Map.empty\<rparr>"

definition example_host :: Host where
  "example_host =
     \<lparr>now_string = ''1604300000000'',
      edge_function_dir = ''lib/edge-function'',
      extractQualifierFromArn = (\<lambda>arn. Literal ''1'')\<rparr>"

definition example_props :: FunctionProps where
  "example_props =
     \<lparr>runtime = ''nodejs12.x'', handler = ''index.handler'', code = ''inline'',
      vpc = Some ''vpc-1'', role = None\<rparr>"

text \<open>A stack created without any application around it.\<close>

definition example_stack_only :: graph where
  "example_stack_only =
     \<lparr>tree = [[] \<mapsto> Stack (Known ''eu-west-1'') LegacyStackSynthesizer],
      dependencies = [],
      providers = Map.empty\<rparr>"

text \<open>
  Facades built in it: two in the same stack outside the edge region, one in a stack of
  another region, one in the edge region.
\<close>

definition example_Fn1 :: "(error + EdgeFunction) \<times> graph" where
  "example_Fn1 = EdgeFunction_new example_host [''StackA''] ''Fn1'' example_props example_app"

definition example_Fn2 :: "(error + EdgeFunction) \<times> graph" where
  "example_Fn2 = EdgeFunction_new example_host [''StackA''] ''Fn2'' example_props (snd example_Fn1)"

definition example_Fn3 :: "(error + EdgeFunction) \<times> graph" where
  "example_Fn3 = EdgeFunction_new example_host [''StackB''] ''Fn3'' example_props (snd example_Fn1)"

definition example_in_region :: "(error + EdgeFunction) \<times> graph" where
  "example_in_region = EdgeFunction_new example_host [''StackE''] ''Fn1'' example_props example_app"

definition example_alias :: "(error + path) \<times> graph" where
  "example_alias = addAlias (projr (fst example_Fn1)) ''live'' None (snd example_Fn1)"

section \<open>How a successful step changes the graph\<close>

lemma returns_Inr: "returns x g = (Inr y, g') \<longleftrightarrow> y = x \<and> g' = g"
  by (auto simp: returns_def)

lemma andThen_Inr:
  "andThen m f g = (Inr y, g'') \<longleftrightarrow> (\<exists>x g'. m g = (Inr x, g') \<and> f x g' = (Inr y, g''))"
  by (auto simp: andThen_def split: prod.splits sum.splits)

lemma Construct_new_Inr:
  "Construct_new scope i c g = (Inr p, g') \<longleftrightarrow>
     tree g (i # scope) = None \<and> p = i # scope \<and> g' = g\<lparr>tree := (tree g)(i # scope \<mapsto> c)\<rparr>"
  by (auto simp: Construct_new_def)

lemma stack_at_shorter: "length q < length p \<Longrightarrow> stack_at (t(p \<mapsto> c)) q = stack_at t q"
  by (auto simp: stack_at_def)

lemma stack_of_shorter: "length q < length p \<Longrightarrow> stack_of (t(p \<mapsto> c)) q = stack_of t q"
  by (induction q) (auto simp: stack_at_shorter split: option.splits)

lemma stack_of_new_facade:
  "stack_of (t(i # scope \<mapsto> EdgeFunctionResource)) (i # scope) = stack_of t scope"
  by (simp add: stack_at_def stack_of_shorter)

lemma Resource_new_Inr:
  "Resource_new scope i EdgeFunctionResource g = (Inr this, g') \<longleftrightarrow>
     tree g (i # scope) = None \<and> g' = g\<lparr>tree := (tree g)(i # scope \<mapsto> EdgeFunctionResource)\<rparr> \<and>
     (\<exists>st r syn. stack_of (tree g) scope = Some (st, r, syn) \<and>
        this = \<lparr>node = i # scope, stack = st, stack_region = r, stack_synthesizer = syn, env_region = r\<rparr>)"
  by (auto simp: Resource_new_def andThen_def Construct_new_def stack_of_new_facade simp del: stack_of.simps split: option.splits)

lemma roleOrDefault_Inr:
  "roleOrDefault props scope i g = (Inr r, g') \<longleftrightarrow>
     (case role props of
        Some given \<Rightarrow> r = given \<and> g' = g
      | None \<Rightarrow> tree g ((i @ ''ServiceRole'') # scope) = None \<and> r = RoleAt ((i @ ''ServiceRole'') # scope) \<and>
          g' = g\<lparr>tree := (tree g)((i @ ''ServiceRole'') # scope \<mapsto>
                  Role [ServicePrincipal ''lambda.amazonaws.com'', ServicePrincipal ''edgelambda.amazonaws.com'']
                       [AwsManagedPolicyName ''service-role/AWSLambdaBasicExecutionRole''])\<rparr>)"
  by (auto simp: roleOrDefault_def defaultLambdaRole_def andThen_Inr Construct_new_Inr returns_Inr split: option.splits)

lemma createInRegionFunction_Inr:
  "createInRegionFunction this i props g = (Inr cfg, g') \<longleftrightarrow>
     (\<exists>r g1. roleOrDefault props (node this) i g = (Inr r, g1) \<and>
        tree g1 (''Fn'' # node this) = None \<and>
        g' = g1\<lparr>tree := (tree g1)(''Fn'' # node this \<mapsto> Function (props\<lparr>role := Some r\<rparr>))\<rparr> \<and>
        cfg = \<lparr>cfg_edgeFunction = ''Fn'' # node this,
               cfg_currentVersion = CurrentVersion (''Fn'' # node this),
               cfg_edgeArn = EdgeArnOf (CurrentVersion (''Fn'' # node this)),
               cfg_functionStack = stack this\<rparr>)"
  by (auto simp: createInRegionFunction_def andThen_Inr Construct_new_Inr returns_Inr)

lemma edgeStack_Inr:
  "edgeStack this g = (Inr es, g') \<longleftrightarrow>
     (\<exists>stage region. tree g root = Some stage \<and> isStage stage \<and> env_region this = Known region \<and>
        es = [edgeStackId region] \<and>
        (if tree g es = None
         then g' = g\<lparr>tree := (tree g)(es \<mapsto> CrossRegionLambdaStack
                  \<lparr>synthesizer = getCrossRegionSupportSynthesizer this, env = Known EDGE_REGION\<rparr>)\<rparr>
         else g' = g))"
  by (auto simp: edgeStack_def tryFindChild_def Construct_new_def root_def split: option.splits region.splits)

lemma addDependency_Inr:
  "addDependency a b g = (Inr u, g') \<longleftrightarrow> g' = g\<lparr>dependencies := dependencies g @ [(a, b)]\<rparr>"
  by (auto simp: addDependency_def)

lemma getOrCreate_Inr:
  "getOrCreate scope u props g = (Inr tok, g') \<longleftrightarrow>
     tok = ServiceToken (stack scope) u \<and>
     g' = (case providers g (stack scope, u) of Some existing \<Rightarrow> g
           | None \<Rightarrow> g\<lparr>providers := (providers g)((stack scope, u) \<mapsto> props)\<rparr>)"
  by (auto simp: getOrCreate_def split: option.splits)

lemma addEdgeFunction_Inr:
  "addEdgeFunction self i pn props g = (Inr (fn, ver), g') \<longleftrightarrow>
     (\<exists>r g1. roleOrDefault props self i g = (Inr r, g1) \<and>
        tree g1 (i # self) = None \<and> tree g1 (''Parameter'' # i # self) = None \<and>
        fn = i # self \<and> ver = CurrentVersion (i # self) \<and>
        g' = g1\<lparr>tree := (tree g1)(i # self \<mapsto> Function (props\<lparr>role := Some r\<rparr>),
                   ''Parameter'' # i # self \<mapsto> StringParameter pn (EdgeArnOf (CurrentVersion (i # self))))\<rparr>)"
  by (auto simp: addEdgeFunction_def andThen_Inr Construct_new_Inr returns_Inr)

lemma call_addEdgeFunction_Inr:
  "call_addEdgeFunction es i pn props g = (Inr (fn, ver), g') \<longleftrightarrow>
     (\<exists>sp. tree g es = Some (CrossRegionLambdaStack sp)) \<and> addEdgeFunction es i pn props g = (Inr (fn, ver), g')"
  by (auto simp: call_addEdgeFunction_def split: option.splits construct.splits)

lemma createCrossRegionFunction_Inr:
  "createCrossRegionFunction h this i props g = (Inr cfg, g') \<longleftrightarrow>
     (\<exists>es g1 fn ver g2 g3.
        edgeStack this g = (Inr es, g1) \<and>
        call_addEdgeFunction es i (parameterName i) props (g1\<lparr>dependencies := dependencies g1 @ [(stack this, es)]\<rparr>) = (Inr (fn, ver), g2) \<and>
        g3 = (case providers g2 (stack this, resourceType) of Some existing \<Rightarrow> g2
              | None \<Rightarrow> g2\<lparr>providers := (providers g2)((stack this, resourceType) \<mapsto>
                  \<lparr>codeDirectory = edge_function_dir h, provider_runtime = ''nodejs12.x'',
                   policyStatements = [\<lparr>Effect = ''Allow'', Resource = parameterArn (stack this) i,
                                        Action = [''ssm:GetParameter'']\<rparr>]\<rparr>)\<rparr>) \<and>
        tree g3 (''ArnReader'' # node this) = None \<and>
        g' = g3\<lparr>tree := (tree g3)(''ArnReader'' # node this \<mapsto>
               CustomResource resourceType (ServiceToken (stack this) resourceType)
                 \<lparr>Region = EDGE_REGION, ParameterName = parameterName i,
                  RefreshEachDeploy = now_string h\<rparr>)\<rparr> \<and>
        cfg = \<lparr>cfg_edgeFunction = fn, cfg_currentVersion = ver,
               cfg_edgeArn = AttString (''ArnReader'' # node this) ''FunctionArn'',
               cfg_functionStack = es\<rparr>)"
  by (auto simp: createCrossRegionFunction_def andThen_Inr Construct_new_Inr returns_Inr
        addDependency_Inr getOrCreate_Inr)

lemma EdgeFunction_new_Inr:
  "EdgeFunction_new h scope i props g = (Inr f, g') \<longleftrightarrow>
     (\<exists>this g1 cfg.
        Resource_new scope i EdgeFunctionResource g = (Inr this, g1) \<and>
        (if regionIsUsEast1 this then createInRegionFunction this i props
         else createCrossRegionFunction h this i props) g1 = (Inr cfg, g') \<and>
        f = \<lparr>node = node this, stack = stack this, stack_region = stack_region this,
             stack_synthesizer = stack_synthesizer this, env_region = env_region this,
             edgeArn = cfg_edgeArn cfg,
             functionName = FunctionNameOf (cfg_edgeFunction cfg),
             functionArn = cfg_edgeArn cfg,
             grantPrincipal = Function_role g' (cfg_edgeFunction cfg),
             isBoundToVpc = False,
             lambda = cfg_edgeFunction cfg,
             permissionsNode = cfg_edgeFunction cfg,
             facade_role = None,
             version = extractQualifierFromArn h (cfg_edgeArn cfg),
             functionStack = cfg_functionStack cfg,
             currentVersion = cfg_currentVersion cfg\<rparr>)"
  unfolding EdgeFunction_new_def andThen_Inr by (auto split del: if_split)

lemma tree_le_Some: "tree g \<subseteq>\<^sub>m tree g' \<Longrightarrow> tree g p = Some c \<Longrightarrow> tree g' p = Some c"
  by (metis domI map_le_def)

lemma tree_le_None: "tree g \<subseteq>\<^sub>m tree g' \<Longrightarrow> tree g' p = None \<Longrightarrow> tree g p = None"
  by (cases "tree g p") (auto dest: tree_le_Some)

lemma fresh_upd_le: "m p = None \<Longrightarrow> m \<subseteq>\<^sub>m m(p \<mapsto> c)"
  by (auto simp: map_le_def)

lemma Construct_new_facts:
  assumes "Construct_new scope i c g = (Inr p, g')"
  shows "p = i # scope \<and> tree g p = None \<and> tree g' p = Some c \<and> tree g \<subseteq>\<^sub>m tree g' \<and>
         providers g' = providers g \<and> dependencies g' = dependencies g"
  using assms by (auto simp: Construct_new_Inr fresh_upd_le)

lemma roleOrDefault_facts:
  assumes "roleOrDefault props scope i g = (Inr r, g')"
  shows "tree g \<subseteq>\<^sub>m tree g' \<and> providers g' = providers g \<and> dependencies g' = dependencies g \<and>
         (case role props of
            Some given \<Rightarrow> r = given \<and> g' = g
          | None \<Rightarrow> r = RoleAt ((i @ ''ServiceRole'') # scope) \<and>
                    tree g ((i @ ''ServiceRole'') # scope) = None \<and>
                    tree g' ((i @ ''ServiceRole'') # scope) = Some defaultRole)"
  using assms by (auto simp: roleOrDefault_Inr fresh_upd_le split: option.splits)

lemma addEdgeFunction_facts:
  assumes "addEdgeFunction self i pn props g = (Inr (fn, ver), g')"
  shows "\<exists>r. fn = i # self \<and> ver = CurrentVersion (i # self) \<and>
           tree g \<subseteq>\<^sub>m tree g' \<and> providers g' = providers g \<and> dependencies g' = dependencies g \<and>
           tree g' (i # self) = Some (Function (props\<lparr>role := Some r\<rparr>)) \<and>
           tree g' (''Parameter'' # i # self) = Some (StringParameter pn (EdgeArnOf (CurrentVersion (i # self)))) \<and>
           (case role props of
              Some given \<Rightarrow> r = given
            | None \<Rightarrow> r = RoleAt ((i @ ''ServiceRole'') # self) \<and>
                      tree g' ((i @ ''ServiceRole'') # self) = Some defaultRole)"
proof -
  from assms obtain r g1 where
    r: "roleOrDefault props self i g = (Inr r, g1)" and
    f1: "tree g1 (i # self) = None" and f2: "tree g1 (''Parameter'' # i # self) = None" and
    fn: "fn = i # self" and ver: "ver = CurrentVersion (i # self)" and
    g': "g' = g1\<lparr>tree := (tree g1)(i # self \<mapsto> Function (props\<lparr>role := Some r\<rparr>),
                   ''Parameter'' # i # self \<mapsto> StringParameter pn (EdgeArnOf (CurrentVersion (i # self))))\<rparr>"
    unfolding addEdgeFunction_Inr by blast
  note rf = roleOrDefault_facts[OF r]
  have le1: "tree g1 \<subseteq>\<^sub>m tree g'"
    using f1 f2 by (auto simp: g' map_le_def)
  have le: "tree g \<subseteq>\<^sub>m tree g'"
    using rf le1 map_le_trans by blast
  have rolefact: "case role props of
              Some given \<Rightarrow> r = given
            | None \<Rightarrow> r = RoleAt ((i @ ''ServiceRole'') # self) \<and>
                      tree g' ((i @ ''ServiceRole'') # self) = Some defaultRole"
    using rf le1 by (auto split: option.splits intro: tree_le_Some)
  show ?thesis
    using rf fn ver le rolefact by (intro exI[of _ r]) (simp add: g')
qed

lemma edgeStack_facts:
  assumes "edgeStack this g = (Inr es, g')"
  shows "\<exists>region. rootIsStage g \<and> env_region this = Known region \<and> es = [edgeStackId region] \<and>
           tree g \<subseteq>\<^sub>m tree g' \<and> providers g' = providers g \<and> dependencies g' = dependencies g \<and>
           tree g' es \<noteq> None \<and>
           (tree g es = None \<longrightarrow>
              tree g' es = Some (CrossRegionLambdaStack
                \<lparr>synthesizer = getCrossRegionSupportSynthesizer this, env = Known EDGE_REGION\<rparr>))"
  using assms
  by (auto simp: edgeStack_Inr rootIsStage_def fresh_upd_le split: if_splits)

lemma createCrossRegionFunction_facts:
  assumes "createCrossRegionFunction h this i props g = (Inr cfg, g')"
  shows "\<exists>region r sp.
           rootIsStage g \<and> env_region this = Known region \<and>
           cfg = \<lparr>cfg_edgeFunction = [i, edgeStackId region],
                  cfg_currentVersion = CurrentVersion [i, edgeStackId region],
                  cfg_edgeArn = AttString (''ArnReader'' # node this) ''FunctionArn'',
                  cfg_functionStack = [edgeStackId region]\<rparr> \<and>
           tree g \<subseteq>\<^sub>m tree g' \<and> providers g \<subseteq>\<^sub>m providers g' \<and>
           dependencies g' = dependencies g @ [(stack this, [edgeStackId region])] \<and>
           tree g' [edgeStackId region] = Some (CrossRegionLambdaStack sp) \<and>
           (tree g [edgeStackId region] = None \<longrightarrow>
              sp = \<lparr>synthesizer = getCrossRegionSupportSynthesizer this, env = Known EDGE_REGION\<rparr>) \<and>
           tree g' [i, edgeStackId region] = Some (Function (props\<lparr>role := Some r\<rparr>)) \<and>
           tree g' [''Parameter'', i, edgeStackId region] =
             Some (StringParameter (parameterName i) (EdgeArnOf (CurrentVersion [i, edgeStackId region]))) \<and>
           (case role props of
              Some given \<Rightarrow> r = given
            | None \<Rightarrow> r = RoleAt [i @ ''ServiceRole'', edgeStackId region] \<and>
                      tree g' [i @ ''ServiceRole'', edgeStackId region] = Some defaultRole) \<and>
           tree g (''ArnReader'' # node this) = None \<and>
           tree g' (''ArnReader'' # node this) = Some (readerResource h (stack this) i) \<and>
           providers g' (stack this, resourceType) =
             (case providers g (stack this, resourceType) of
                Some existing \<Rightarrow> Some existing
              | None \<Rightarrow> Some (readerProvider h (stack this) i)) \<and>
           (\<forall>k. k \<noteq> (stack this, resourceType) \<longrightarrow> providers g' k = providers g k)"
proof -
  have
    "\<exists>es g1 fn ver g2 g3.
        edgeStack this g = (Inr es, g1) \<and>
        call_addEdgeFunction es i (parameterName i) props
          (g1\<lparr>dependencies := dependencies g1 @ [(stack this, es)]\<rparr>) = (Inr (fn, ver), g2) \<and>
        g3 = (case providers g2 (stack this, resourceType) of Some existing \<Rightarrow> g2
              | None \<Rightarrow> g2\<lparr>providers := (providers g2)((stack this, resourceType) \<mapsto> readerProvider h (stack this) i)\<rparr>) \<and>
        tree g3 (''ArnReader'' # node this) = None \<and>
        g' = g3\<lparr>tree := (tree g3)(''ArnReader'' # node this \<mapsto> readerResource h (stack this) i)\<rparr> \<and>
        cfg = \<lparr>cfg_edgeFunction = fn, cfg_currentVersion = ver,
               cfg_edgeArn = AttString (''ArnReader'' # node this) ''FunctionArn'',
               cfg_functionStack = es\<rparr>"
    by (rule iffD1[OF createCrossRegionFunction_Inr assms])
  then show ?thesis
  proof (elim exE conjE)
    fix es g1 fn ver g2 g3
    assume es: "edgeStack this g = (Inr es, g1)"
      and call: "call_addEdgeFunction es i (parameterName i) props
             (g1\<lparr>dependencies := dependencies g1 @ [(stack this, es)]\<rparr>) = (Inr (fn, ver), g2)"
      and g3: "g3 = (case providers g2 (stack this, resourceType) of Some existing \<Rightarrow> g2
              | None \<Rightarrow> g2\<lparr>providers := (providers g2)((stack this, resourceType) \<mapsto> readerProvider h (stack this) i)\<rparr>)"
      and fresh: "tree g3 (''ArnReader'' # node this) = None"
      and g': "g' = g3\<lparr>tree := (tree g3)(''ArnReader'' # node this \<mapsto> readerResource h (stack this) i)\<rparr>"
      and cfg: "cfg = \<lparr>cfg_edgeFunction = fn, cfg_currentVersion = ver,
               cfg_edgeArn = AttString (''ArnReader'' # node this) ''FunctionArn'',
               cfg_functionStack = es\<rparr>"
    from edgeStack_facts[OF es] obtain region where
      E: "rootIsStage g \<and> env_region this = Known region \<and> es = [edgeStackId region] \<and>
           tree g \<subseteq>\<^sub>m tree g1 \<and> providers g1 = providers g \<and> dependencies g1 = dependencies g \<and>
           tree g1 es \<noteq> None \<and>
           (tree g es = None \<longrightarrow>
              tree g1 es = Some (CrossRegionLambdaStack
                \<lparr>synthesizer = getCrossRegionSupportSynthesizer this, env = Known EDGE_REGION\<rparr>))"
      by (elim exE) (rule that)
    from E have stage: "rootIsStage g" and region: "env_region this = Known region"
      and es_eq: "es = [edgeStackId region]"
      and le1: "tree g \<subseteq>\<^sub>m tree g1" and p1: "providers g1 = providers g"
      and d1: "dependencies g1 = dependencies g"
      and created: "tree g es = None \<longrightarrow>
              tree g1 es = Some (CrossRegionLambdaStack
                \<lparr>synthesizer = getCrossRegionSupportSynthesizer this, env = Known EDGE_REGION\<rparr>)"
      by auto
    from iffD1[OF call_addEdgeFunction_Inr call] obtain sp where
      sp: "tree (g1\<lparr>dependencies := dependencies g1 @ [(stack this, es)]\<rparr>) es = Some (CrossRegionLambdaStack sp)"
      by (elim exE conjE) (rule that)
    have add: "addEdgeFunction es i (parameterName i) props
            (g1\<lparr>dependencies := dependencies g1 @ [(stack this, es)]\<rparr>) = (Inr (fn, ver), g2)"
      using iffD1[OF call_addEdgeFunction_Inr call] by (elim conjE)
    from sp have sp: "tree g1 es = Some (CrossRegionLambdaStack sp)"
      by simp
    from addEdgeFunction_facts[OF add] obtain r where
      A: "fn = i # es \<and> ver = CurrentVersion (i # es) \<and>
           tree (g1\<lparr>dependencies := dependencies g1 @ [(stack this, es)]\<rparr>) \<subseteq>\<^sub>m tree g2 \<and>
           providers g2 = providers (g1\<lparr>dependencies := dependencies g1 @ [(stack this, es)]\<rparr>) \<and>
           dependencies g2 = dependencies (g1\<lparr>dependencies := dependencies g1 @ [(stack this, es)]\<rparr>) \<and>
           tree g2 (i # es) = Some (Function (props\<lparr>role := Some r\<rparr>)) \<and>
           tree g2 (''Parameter'' # i # es) = Some (StringParameter (parameterName i) (EdgeArnOf (CurrentVersion (i # es)))) \<and>
           (case role props of
              Some given \<Rightarrow> r = given
            | None \<Rightarrow> r = RoleAt ((i @ ''ServiceRole'') # es) \<and>
                      tree g2 ((i @ ''ServiceRole'') # es) = Some defaultRole)"
      by (elim exE) (rule that)
    from A have fn: "fn = i # es" and ver: "ver = CurrentVersion (i # es)"
      and tfn: "tree g2 (i # es) = Some (Function (props\<lparr>role := Some r\<rparr>))"
      and tpar: "tree g2 (''Parameter'' # i # es) =
             Some (StringParameter (parameterName i) (EdgeArnOf (CurrentVersion (i # es))))"
      and trole: "case role props of
              Some given \<Rightarrow> r = given
            | None \<Rightarrow> r = RoleAt ((i @ ''ServiceRole'') # es) \<and>
                      tree g2 ((i @ ''ServiceRole'') # es) = Some defaultRole"
      by simp_all
    from A have le2: "tree g1 \<subseteq>\<^sub>m tree g2" and p2: "providers g2 = providers g1"
      and d2: "dependencies g2 = dependencies g1 @ [(stack this, es)]"
      by simp_all
    have t3: "tree g3 = tree g2" and d3: "dependencies g3 = dependencies g2"
      by (simp_all add: g3 split: option.splits)
    have p3: "providers g3 (stack this, resourceType) =
               (case providers g (stack this, resourceType) of
                  Some existing \<Rightarrow> Some existing
                | None \<Rightarrow> Some (readerProvider h (stack this) i))"
      by (simp add: g3 p2 p1 split: option.splits)
    have ple: "providers g \<subseteq>\<^sub>m providers g3"
      by (auto simp: g3 p2 p1 map_le_def split: option.splits)
    have le3: "tree g2 \<subseteq>\<^sub>m tree g'"
      using fresh by (simp add: g' t3 fresh_upd_le)
    have le1': "tree g1 \<subseteq>\<^sub>m tree g'"
      by (rule map_le_trans[OF le2 le3])
    have le: "tree g \<subseteq>\<^sub>m tree g'"
      by (rule map_le_trans[OF le1 le1'])
    have spnew: "tree g [edgeStackId region] = None \<longrightarrow>
                sp = \<lparr>synthesizer = getCrossRegionSupportSynthesizer this, env = Known EDGE_REGION\<rparr>"
      using created sp es_eq by auto
    have role': "case role props of
                Some given \<Rightarrow> r = given
              | None \<Rightarrow> r = RoleAt [i @ ''ServiceRole'', edgeStackId region] \<and>
                        tree g' [i @ ''ServiceRole'', edgeStackId region] = Some defaultRole"
      using trole le3 es_eq by (auto split: option.splits intro: tree_le_Some)
    have fresh2: "tree g2 (''ArnReader'' # node this) = None"
      using fresh by (simp only: t3)
    have freshg: "tree g (''ArnReader'' # node this) = None"
      by (rule tree_le_None[OF le1 tree_le_None[OF le2 fresh2]])
    show ?thesis
      apply (rule exI[of _ region], rule exI[of _ r], rule exI[of _ sp])
      apply (intro conjI)
      subgoal by (rule stage)
      subgoal by (rule region)
      subgoal by (simp add: cfg fn ver es_eq)
      subgoal by (rule le)
      subgoal using ple by (simp add: g')
      subgoal by (simp add: g' d3 d2 d1 es_eq)
      subgoal using tree_le_Some[OF le1' sp] by (simp add: es_eq)
      subgoal by (rule spnew)
      subgoal using tree_le_Some[OF le3 tfn] by (simp add: es_eq)
      subgoal using tree_le_Some[OF le3 tpar] by (simp add: es_eq)
      subgoal by (rule role')
      subgoal by (rule freshg)
      subgoal by (simp add: g')
      subgoal by (simp add: g' p3)
      subgoal by (simp add: g' g3 p2 p1 split: option.splits)
      done
  qed
qed

lemma EdgeFunction_new_fields:
  assumes "EdgeFunction_new h scope i props g = (Inr f, g')"
  shows "\<exists>this g1 cfg.
           Resource_new scope i EdgeFunctionResource g = (Inr this, g1) \<and>
           (if regionIsUsEast1 this then createInRegionFunction this i props
            else createCrossRegionFunction h this i props) g1 = (Inr cfg, g') \<and>
           node f = node this \<and> stack f = stack this \<and> stack_region f = stack_region this \<and>
           stack_synthesizer f = stack_synthesizer this \<and> env_region f = env_region this \<and>
           edgeArn f = cfg_edgeArn cfg \<and>
           functionName f = FunctionNameOf (cfg_edgeFunction cfg) \<and>
           functionArn f = cfg_edgeArn cfg \<and>
           grantPrincipal f = Function_role g' (cfg_edgeFunction cfg) \<and>
           isBoundToVpc f = False \<and>
           lambda f = cfg_edgeFunction cfg \<and>
           permissionsNode f = cfg_edgeFunction cfg \<and>
           facade_role f = None \<and>
           version f = extractQualifierFromArn h (cfg_edgeArn cfg) \<and>
           functionStack f = cfg_functionStack cfg \<and>
           currentVersion f = cfg_currentVersion cfg"
proof -
  have "\<exists>this g1 cfg.
        Resource_new scope i EdgeFunctionResource g = (Inr this, g1) \<and>
        (if regionIsUsEast1 this then createInRegionFunction this i props
         else createCrossRegionFunction h this i props) g1 = (Inr cfg, g') \<and>
        f = \<lparr>node = node this, stack = stack this, stack_region = stack_region this,
             stack_synthesizer = stack_synthesizer this, env_region = env_region this,
             edgeArn = cfg_edgeArn cfg,
             functionName = FunctionNameOf (cfg_edgeFunction cfg),
             functionArn = cfg_edgeArn cfg,
             grantPrincipal = Function_role g' (cfg_edgeFunction cfg),
             isBoundToVpc = False,
             lambda = cfg_edgeFunction cfg,
             permissionsNode = cfg_edgeFunction cfg,
             facade_role = None,
             version = extractQualifierFromArn h (cfg_edgeArn cfg),
             functionStack = cfg_functionStack cfg,
             currentVersion = cfg_currentVersion cfg\<rparr>"
    by (rule iffD1[OF EdgeFunction_new_Inr assms])
  then show ?thesis
  proof (elim exE conjE)
    fix this g1 cfg
    assume r: "Resource_new scope i EdgeFunctionResource g = (Inr this, g1)"
      and c: "(if regionIsUsEast1 this then createInRegionFunction this i props
               else createCrossRegionFunction h this i props) g1 = (Inr cfg, g')"
      and f: "f = \<lparr>node = node this, stack = stack this, stack_region = stack_region this,
             stack_synthesizer = stack_synthesizer this, env_region = env_region this,
             edgeArn = cfg_edgeArn cfg,
             functionName = FunctionNameOf (cfg_edgeFunction cfg),
             functionArn = cfg_edgeArn cfg,
             grantPrincipal = Function_role g' (cfg_edgeFunction cfg),
             isBoundToVpc = False,
             lambda = cfg_edgeFunction cfg,
             permissionsNode = cfg_edgeFunction cfg,
             facade_role = None,
             version = extractQualifierFromArn h (cfg_edgeArn cfg),
             functionStack = cfg_functionStack cfg,
             currentVersion = cfg_currentVersion cfg\<rparr>"
    show ?thesis
      apply (rule exI[of _ this], rule exI[of _ g1], rule exI[of _ cfg])
      apply (intro conjI)
      subgoal by (rule r)
      subgoal by (rule c)
      apply (simp_all add: f)
      done
  qed
qed

lemma Resource_new_facts:
  assumes "Resource_new scope i EdgeFunctionResource g = (Inr this, g')"
  shows "tree g (i # scope) = None \<and> tree g' (i # scope) = Some EdgeFunctionResource \<and>
         tree g \<subseteq>\<^sub>m tree g' \<and> providers g' = providers g \<and> dependencies g' = dependencies g \<and>
         node this = i # scope \<and> env_region this = stack_region this \<and>
         stack_of (tree g) scope = Some (stack this, stack_region this, stack_synthesizer this) \<and>
         (\<forall>p. p \<noteq> i # scope \<longrightarrow> tree g' p = tree g p)"
  using assms by (auto simp: Resource_new_Inr fresh_upd_le)

lemma regionIsUsEast1_iff: "regionIsUsEast1 this \<longleftrightarrow> stack_region this = Known ''us-east-1''"
  by (auto simp: regionIsUsEast1_def)

lemma createInRegionFunction_facts:
  assumes "createInRegionFunction this i props g = (Inr cfg, g')"
  shows "\<exists>r. cfg = \<lparr>cfg_edgeFunction = ''Fn'' # node this,
                     cfg_currentVersion = CurrentVersion (''Fn'' # node this),
                     cfg_edgeArn = EdgeArnOf (CurrentVersion (''Fn'' # node this)),
                     cfg_functionStack = stack this\<rparr> \<and>
           tree g \<subseteq>\<^sub>m tree g' \<and> providers g' = providers g \<and> dependencies g' = dependencies g \<and>
           tree g' (''Fn'' # node this) = Some (Function (props\<lparr>role := Some r\<rparr>)) \<and>
           (case role props of
              Some given \<Rightarrow> r = given
            | None \<Rightarrow> r = RoleAt ((i @ ''ServiceRole'') # node this) \<and>
                      tree g' ((i @ ''ServiceRole'') # node this) = Some defaultRole)"
proof -
  have "\<exists>r g1. roleOrDefault props (node this) i g = (Inr r, g1) \<and>
        tree g1 (''Fn'' # node this) = None \<and>
        g' = g1\<lparr>tree := (tree g1)(''Fn'' # node this \<mapsto> Function (props\<lparr>role := Some r\<rparr>))\<rparr> \<and>
        cfg = \<lparr>cfg_edgeFunction = ''Fn'' # node this,
               cfg_currentVersion = CurrentVersion (''Fn'' # node this),
               cfg_edgeArn = EdgeArnOf (CurrentVersion (''Fn'' # node this)),
               cfg_functionStack = stack this\<rparr>"
    by (rule iffD1[OF createInRegionFunction_Inr assms])
  then show ?thesis
  proof (elim exE conjE)
    fix r g1
    assume r: "roleOrDefault props (node this) i g = (Inr r, g1)"
      and fresh: "tree g1 (''Fn'' # node this) = None"
      and g': "g' = g1\<lparr>tree := (tree g1)(''Fn'' # node this \<mapsto> Function (props\<lparr>role := Some r\<rparr>))\<rparr>"
      and cfg: "cfg = \<lparr>cfg_edgeFunction = ''Fn'' # node this,
               cfg_currentVersion = CurrentVersion (''Fn'' # node this),
               cfg_edgeArn = EdgeArnOf (CurrentVersion (''Fn'' # node this)),
               cfg_functionStack = stack this\<rparr>"
    note rf = roleOrDefault_facts[OF r]
    have le1: "tree g1 \<subseteq>\<^sub>m tree g'"
      using fresh by (simp add: g' fresh_upd_le)
    from rf have le0: "tree g \<subseteq>\<^sub>m tree g1" by simp
    have rolefact: "case role props of
              Some given \<Rightarrow> r = given
            | None \<Rightarrow> r = RoleAt ((i @ ''ServiceRole'') # node this) \<and>
                      tree g' ((i @ ''ServiceRole'') # node this) = Some defaultRole"
      using rf le1 by (auto split: option.splits intro: tree_le_Some)
    show ?thesis
      apply (rule exI[of _ r])
      apply (intro conjI)
      subgoal by (rule cfg)
      subgoal by (rule map_le_trans[OF le0 le1])
      subgoal using rf by (simp add: g')
      subgoal using rf by (simp add: g')
      subgoal by (simp add: g')
      subgoal by (rule rolefact)
      done
  qed
qed

lemma in_region_facts:
  assumes ok: "EdgeFunction_new h scope i props g = (Inr f, g')"
    and reg: "stack_region f = Known ''us-east-1''"
  shows "\<exists>r. tree g (i # scope) = None \<and>
           stack_of (tree g) scope = Some (stack f, stack_region f, stack_synthesizer f) \<and>
           node f = i # scope \<and> functionStack f = stack f \<and>
           lambda f = ''Fn'' # i # scope \<and>
           currentVersion f = CurrentVersion (''Fn'' # i # scope) \<and>
           edgeArn f = EdgeArnOf (CurrentVersion (''Fn'' # i # scope)) \<and>
           grantPrincipal f = Some r \<and>
           tree g \<subseteq>\<^sub>m tree g' \<and> providers g' = providers g \<and> dependencies g' = dependencies g \<and>
           tree g' (i # scope) = Some EdgeFunctionResource \<and>
           tree g' (''Fn'' # i # scope) = Some (Function (props\<lparr>role := Some r\<rparr>)) \<and>
           (case role props of
              Some given \<Rightarrow> r = given
            | None \<Rightarrow> r = RoleAt ((i @ ''ServiceRole'') # i # scope) \<and>
                      tree g' ((i @ ''ServiceRole'') # i # scope) = Some defaultRole)"
proof -
  from EdgeFunction_new_fields[OF ok] obtain this g1 cfg where
    r: "Resource_new scope i EdgeFunctionResource g = (Inr this, g1)" and
    c: "(if regionIsUsEast1 this then createInRegionFunction this i props
         else createCrossRegionFunction h this i props) g1 = (Inr cfg, g')" and
    n: "node f = node this" and st: "stack f = stack this" and
    sr: "stack_region f = stack_region this" and
    ss: "stack_synthesizer f = stack_synthesizer this" and
    ea: "edgeArn f = cfg_edgeArn cfg" and
    gp: "grantPrincipal f = Function_role g' (cfg_edgeFunction cfg)" and
    la: "lambda f = cfg_edgeFunction cfg" and
    fs: "functionStack f = cfg_functionStack cfg" and
    cv: "currentVersion f = cfg_currentVersion cfg"
    by (elim exE conjE) (rule that)
  note rf = Resource_new_facts[OF r]
  from rf have nt: "node this = i # scope" by simp
  from reg sr have "regionIsUsEast1 this" by (simp add: regionIsUsEast1_iff)
  with c have c': "createInRegionFunction this i props g1 = (Inr cfg, g')" by simp
  from createInRegionFunction_facts[OF c'] obtain r where
    C: "cfg = \<lparr>cfg_edgeFunction = ''Fn'' # node this,
                     cfg_currentVersion = CurrentVersion (''Fn'' # node this),
                     cfg_edgeArn = EdgeArnOf (CurrentVersion (''Fn'' # node this)),
                     cfg_functionStack = stack this\<rparr> \<and>
           tree g1 \<subseteq>\<^sub>m tree g' \<and> providers g' = providers g1 \<and> dependencies g' = dependencies g1 \<and>
           tree g' (''Fn'' # node this) = Some (Function (props\<lparr>role := Some r\<rparr>)) \<and>
           (case role props of
              Some given \<Rightarrow> r = given
            | None \<Rightarrow> r = RoleAt ((i @ ''ServiceRole'') # node this) \<and>
                      tree g' ((i @ ''ServiceRole'') # node this) = Some defaultRole)"
    by (elim exE) (rule that)
  from C have cfg: "cfg = \<lparr>cfg_edgeFunction = ''Fn'' # node this,
                     cfg_currentVersion = CurrentVersion (''Fn'' # node this),
                     cfg_edgeArn = EdgeArnOf (CurrentVersion (''Fn'' # node this)),
                     cfg_functionStack = stack this\<rparr>"
    and le1: "tree g1 \<subseteq>\<^sub>m tree g'"
    and tfn: "tree g' (''Fn'' # node this) = Some (Function (props\<lparr>role := Some r\<rparr>))"
    and rolefact: "case role props of
              Some given \<Rightarrow> r = given
            | None \<Rightarrow> r = RoleAt ((i @ ''ServiceRole'') # node this) \<and>
                      tree g' ((i @ ''ServiceRole'') # node this) = Some defaultRole"
    by simp_all
  from rf have le0: "tree g \<subseteq>\<^sub>m tree g1" and tf: "tree g1 (i # scope) = Some EdgeFunctionResource"
    by simp_all
  show ?thesis
    apply (rule exI[of _ r])
    apply (intro conjI)
    subgoal using rf by simp
    subgoal using rf by (simp add: st sr ss)
    subgoal by (simp add: n nt)
    subgoal by (simp add: fs st cfg)
    subgoal by (simp add: la cfg nt)
    subgoal by (simp add: cv cfg nt)
    subgoal by (simp add: ea cfg nt)
    subgoal using tfn by (simp add: gp cfg Function_role_def)
    subgoal by (rule map_le_trans[OF le0 le1])
    subgoal using C rf by simp
    subgoal using C rf by simp
    subgoal by (rule tree_le_Some[OF le1 tf])
    subgoal using tfn by (simp add: nt)
    subgoal using rolefact by (auto simp: nt split: option.splits)
    done
qed

lemma cross_region_facts:
  assumes ok: "EdgeFunction_new h scope i props g = (Inr f, g')"
    and reg: "stack_region f \<noteq> Known ''us-east-1''"
  shows "\<exists>region r sp.
           tree g (i # scope) = None \<and>
           stack_of (tree g) scope = Some (stack f, stack_region f, stack_synthesizer f) \<and>
           node f = i # scope \<and> stack_region f = Known region \<and> rootIsStage g \<and>
           functionStack f = [edgeStackId region] \<and>
           lambda f = [i, edgeStackId region] \<and>
           currentVersion f = CurrentVersion [i, edgeStackId region] \<and>
           edgeArn f = AttString (''ArnReader'' # i # scope) ''FunctionArn'' \<and>
           grantPrincipal f = Some r \<and>
           tree g \<subseteq>\<^sub>m tree g' \<and> providers g \<subseteq>\<^sub>m providers g' \<and>
           dependencies g' = dependencies g @ [(stack f, [edgeStackId region])] \<and>
           tree g' (i # scope) = Some EdgeFunctionResource \<and>
           tree g' [edgeStackId region] = Some (CrossRegionLambdaStack sp) \<and>
           (tree g [edgeStackId region] = None \<longrightarrow>
              sp = \<lparr>synthesizer = (case stack_synthesizer f of
                                      Some (DefaultStackSynthesizer d c) \<Rightarrow> Some (BootstraplessSynthesizer d c)
                                    | Some (BootstraplessSynthesizer d c) \<Rightarrow> Some (BootstraplessSynthesizer d c)
                                    | _ \<Rightarrow> None),
                    env = Known EDGE_REGION\<rparr>) \<and>
           tree g' [i, edgeStackId region] = Some (Function (props\<lparr>role := Some r\<rparr>)) \<and>
           tree g' [''Parameter'', i, edgeStackId region] =
             Some (StringParameter (parameterName i) (EdgeArnOf (CurrentVersion [i, edgeStackId region]))) \<and>
           (case role props of
              Some given \<Rightarrow> r = given
            | None \<Rightarrow> r = RoleAt [i @ ''ServiceRole'', edgeStackId region] \<and>
                      tree g' [i @ ''ServiceRole'', edgeStackId region] = Some defaultRole) \<and>
           tree g' (''ArnReader'' # i # scope) = Some (readerResource h (stack f) i) \<and>
           providers g' (stack f, resourceType) =
             (case providers g (stack f, resourceType) of
                Some existing \<Rightarrow> Some existing
              | None \<Rightarrow> Some (readerProvider h (stack f) i)) \<and>
           (\<forall>k. k \<noteq> (stack f, resourceType) \<longrightarrow> providers g' k = providers g k)"
proof -
  from EdgeFunction_new_fields[OF ok] obtain this g1 cfg where
    r: "Resource_new scope i EdgeFunctionResource g = (Inr this, g1)" and
    c: "(if regionIsUsEast1 this then createInRegionFunction this i props
         else createCrossRegionFunction h this i props) g1 = (Inr cfg, g')" and
    n: "node f = node this" and st: "stack f = stack this" and
    sr: "stack_region f = stack_region this" and
    ss: "stack_synthesizer f = stack_synthesizer this" and
    ea: "edgeArn f = cfg_edgeArn cfg" and
    gp: "grantPrincipal f = Function_role g' (cfg_edgeFunction cfg)" and
    la: "lambda f = cfg_edgeFunction cfg" and
    fs: "functionStack f = cfg_functionStack cfg" and
    cv: "currentVersion f = cfg_currentVersion cfg"
    by (elim exE conjE) (rule that)
  note rf = Resource_new_facts[OF r]
  from rf have nt: "node this = i # scope" and er: "env_region this = stack_region this"
    and le0: "tree g \<subseteq>\<^sub>m tree g1" and tf: "tree g1 (i # scope) = Some EdgeFunctionResource"
    and p1: "providers g1 = providers g" and d1: "dependencies g1 = dependencies g"
    and other: "\<forall>p. p \<noteq> i # scope \<longrightarrow> tree g1 p = tree g p"
    by simp_all
  from reg sr have "\<not> regionIsUsEast1 this" by (simp add: regionIsUsEast1_iff)
  with c have c': "createCrossRegionFunction h this i props g1 = (Inr cfg, g')" by simp
  from createCrossRegionFunction_facts[OF c'] obtain region r sp where
    C: "rootIsStage g1 \<and> env_region this = Known region \<and>
           cfg = \<lparr>cfg_edgeFunction = [i, edgeStackId region],
                  cfg_currentVersion = CurrentVersion [i, edgeStackId region],
                  cfg_edgeArn = AttString (''ArnReader'' # node this) ''FunctionArn'',
                  cfg_functionStack = [edgeStackId region]\<rparr> \<and>
           tree g1 \<subseteq>\<^sub>m tree g' \<and> providers g1 \<subseteq>\<^sub>m providers g' \<and>
           dependencies g' = dependencies g1 @ [(stack this, [edgeStackId region])] \<and>
           tree g' [edgeStackId region] = Some (CrossRegionLambdaStack sp) \<and>
           (tree g1 [edgeStackId region] = None \<longrightarrow>
              sp = \<lparr>synthesizer = getCrossRegionSupportSynthesizer this, env = Known EDGE_REGION\<rparr>) \<and>
           tree g' [i, edgeStackId region] = Some (Function (props\<lparr>role := Some r\<rparr>)) \<and>
           tree g' [''Parameter'', i, edgeStackId region] =
             Some (StringParameter (parameterName i) (EdgeArnOf (CurrentVersion [i, edgeStackId region]))) \<and>
           (case role props of
              Some given \<Rightarrow> r = given
            | None \<Rightarrow> r = RoleAt [i @ ''ServiceRole'', edgeStackId region] \<and>
                      tree g' [i @ ''ServiceRole'', edgeStackId region] = Some defaultRole) \<and>
           tree g1 (''ArnReader'' # node this) = None \<and>
           tree g' (''ArnReader'' # node this) = Some (readerResource h (stack this) i) \<and>
           providers g' (stack this, resourceType) =
             (case providers g1 (stack this, resourceType) of
                Some existing \<Rightarrow> Some existing
              | None \<Rightarrow> Some (readerProvider h (stack this) i)) \<and>
           (\<forall>k. k \<noteq> (stack this, resourceType) \<longrightarrow> providers g' k = providers g1 k)"
    by (elim exE) (rule that)
  from C have stage: "rootIsStage g1" and region: "env_region this = Known region"
    and cfg: "cfg = \<lparr>cfg_edgeFunction = [i, edgeStackId region],
                  cfg_currentVersion = CurrentVersion [i, edgeStackId region],
                  cfg_edgeArn = AttString (''ArnReader'' # node this) ''FunctionArn'',
                  cfg_functionStack = [edgeStackId region]\<rparr>"
    and le1: "tree g1 \<subseteq>\<^sub>m tree g'" and ple: "providers g1 \<subseteq>\<^sub>m providers g'"
    and deps: "dependencies g' = dependencies g1 @ [(stack this, [edgeStackId region])]"
    and tes: "tree g' [edgeStackId region] = Some (CrossRegionLambdaStack sp)"
    and tfn: "tree g' [i, edgeStackId region] = Some (Function (props\<lparr>role := Some r\<rparr>))"
    and tpar: "tree g' [''Parameter'', i, edgeStackId region] =
             Some (StringParameter (parameterName i) (EdgeArnOf (CurrentVersion [i, edgeStackId region])))"
    and rolefact: "case role props of
              Some given \<Rightarrow> r = given
            | None \<Rightarrow> r = RoleAt [i @ ''ServiceRole'', edgeStackId region] \<and>
                      tree g' [i @ ''ServiceRole'', edgeStackId region] = Some defaultRole"
    and trd: "tree g' (''ArnReader'' # node this) = Some (readerResource h (stack this) i)"
    and prov: "providers g' (stack this, resourceType) =
             (case providers g1 (stack this, resourceType) of
                Some existing \<Rightarrow> Some existing
              | None \<Rightarrow> Some (readerProvider h (stack this) i))"
    and pother: "\<forall>k. k \<noteq> (stack this, resourceType) \<longrightarrow> providers g' k = providers g1 k"
    by simp_all
  from C have spnew1: "tree g1 [edgeStackId region] = None \<longrightarrow>
              sp = \<lparr>synthesizer = getCrossRegionSupportSynthesizer this, env = Known EDGE_REGION\<rparr>"
    by blast
  have tf': "tree g' (i # scope) = Some EdgeFunctionResource"
    by (rule tree_le_Some[OF le1 tf])
  have ne: "[edgeStackId region] \<noteq> i # scope"
    using tf' tes by auto
  have same: "tree g1 [edgeStackId region] = tree g [edgeStackId region]"
    using other ne by blast
  have stage0: "rootIsStage g"
  proof -
    have "root \<noteq> i # scope" by (simp add: root_def)
    with other have "tree g1 root = tree g root" by blast
    with stage show ?thesis by (simp add: rootIsStage_def)
  qed
  show ?thesis
    apply (rule exI[of _ region], rule exI[of _ r], rule exI[of _ sp])
    apply (intro conjI)
    subgoal using rf by simp
    subgoal using rf by (simp add: st sr ss)
    subgoal by (simp add: n nt)
    subgoal using region by (simp add: sr er)
    subgoal by (rule stage0)
    subgoal by (simp add: fs cfg)
    subgoal by (simp add: la cfg)
    subgoal by (simp add: cv cfg)
    subgoal by (simp add: ea cfg nt)
    subgoal using tfn by (simp add: gp cfg Function_role_def)
    subgoal by (rule map_le_trans[OF le0 le1])
    subgoal using ple by (simp add: p1)
    subgoal by (simp add: deps d1 st)
    subgoal by (rule tf')
    subgoal by (rule tes)
    subgoal using spnew1 by (simp add: same getCrossRegionSupportSynthesizer_def ss)
    subgoal by (rule tfn)
    subgoal by (rule tpar)
    subgoal by (rule rolefact)
    subgoal using trd by (simp add: nt st)
    subgoal using prov by (simp add: nt p1 st split: option.splits)
    subgoal using pother by (simp add: nt p1 st)
    done
qed

lemma underlying_function_facts:
  assumes ok: "EdgeFunction_new h scope i props g = (Inr f, g')"
  shows "\<exists>r. grantPrincipal f = Some r \<and>
           tree g' (lambda f) = Some (Function (props\<lparr>role := Some r\<rparr>)) \<and>
           (case role props of
              Some given \<Rightarrow> r = given
            | None \<Rightarrow>
                r = RoleAt ((i @ ''ServiceRole'') #
                      (if stack_region f = Known ''us-east-1'' then node f else functionStack f)) \<and>
                tree g' ((i @ ''ServiceRole'') #
                      (if stack_region f = Known ''us-east-1'' then node f else functionStack f)) =
                  Some defaultRole)"
proof (cases "stack_region f = Known ''us-east-1''")
  case True
  from in_region_facts[OF ok True] obtain r where
    F: "tree g (i # scope) = None \<and>
           stack_of (tree g) scope = Some (stack f, stack_region f, stack_synthesizer f) \<and>
           node f = i # scope \<and> functionStack f = stack f \<and>
           lambda f = ''Fn'' # i # scope \<and>
           currentVersion f = CurrentVersion (''Fn'' # i # scope) \<and>
           edgeArn f = EdgeArnOf (CurrentVersion (''Fn'' # i # scope)) \<and>
           grantPrincipal f = Some r \<and>
           tree g \<subseteq>\<^sub>m tree g' \<and> providers g' = providers g \<and> dependencies g' = dependencies g \<and>
           tree g' (i # scope) = Some EdgeFunctionResource \<and>
           tree g' (''Fn'' # i # scope) = Some (Function (props\<lparr>role := Some r\<rparr>)) \<and>
           (case role props of
              Some given \<Rightarrow> r = given
            | None \<Rightarrow> r = RoleAt ((i @ ''ServiceRole'') # i # scope) \<and>
                      tree g' ((i @ ''ServiceRole'') # i # scope) = Some defaultRole)"
    by (elim exE) (rule that)
  show ?thesis
    apply (rule exI[of _ r])
    using F True by (auto split: option.splits)
next
  case False
  from cross_region_facts[OF ok False] obtain region r sp where
    F: "lambda f = [i, edgeStackId region]" "functionStack f = [edgeStackId region]"
       "grantPrincipal f = Some r"
       "tree g' [i, edgeStackId region] = Some (Function (props\<lparr>role := Some r\<rparr>))"
       "case role props of
              Some given \<Rightarrow> r = given
            | None \<Rightarrow> r = RoleAt [i @ ''ServiceRole'', edgeStackId region] \<and>
                      tree g' [i @ ''ServiceRole'', edgeStackId region] = Some defaultRole"
    by (elim exE conjE) (rule that)
  show ?thesis
    apply (rule exI[of _ r])
    using F False by (auto split: option.splits)
qed

lemma serviceRole_not_Fn: "i @ ''ServiceRole'' \<noteq> ''Fn''"
proof
  assume "i @ ''ServiceRole'' = ''Fn''"
  then have "length (i @ ''ServiceRole'') = length ''Fn''" by (rule arg_cong)
  then show False by simp
qed

lemma well_formed_childless:
  assumes "well_formed g" and "tree g p = None"
  shows "tree g (x # p) = None"
  using assms unfolding well_formed_def by blast

section \<open>The example application, evaluated\<close>

lemmas model_defs =
  EdgeFunction_new_def Resource_new_def Construct_new_def andThen_def returns_def
  regionIsUsEast1_def createInRegionFunction_def createCrossRegionFunction_def
  edgeStack_def edgeStackId_def root_def isStage_def tryFindChild_def
  getCrossRegionSupportSynthesizer_def call_addEdgeFunction_def addEdgeFunction_def
  addDependency_def roleOrDefault_def defaultLambdaRole_def getOrCreate_def
  parameterName_def parameterArn_def resourceType_def EDGE_REGION_def stack_at_def
  Function_role_def

lemmas example_defs = example_app_def example_host_def example_props_def

lemma pair_of_Inr: "fst x = Inr y \<Longrightarrow> x = (Inr (projr (fst x)), snd x)"
  by (cases x) simp

lemma example_Fn1_value:
  "fst example_Fn1 =
     Inr \<lparr>node = [''Fn1'', ''StackA''], stack = [''StackA''],
          stack_region = Known ''eu-west-1'',
          stack_synthesizer = Some LegacyStackSynthesizer,
          env_region = Known ''eu-west-1'',
          edgeArn = AttString [''ArnReader'', ''Fn1'', ''StackA''] ''FunctionArn'',
          functionName = FunctionNameOf [''Fn1'', ''edge-lambda-stack-eu-west-1''],
          functionArn = AttString [''ArnReader'', ''Fn1'', ''StackA''] ''FunctionArn'',
          grantPrincipal = Some (RoleAt [''Fn1ServiceRole'', ''edge-lambda-stack-eu-west-1'']),
          isBoundToVpc = False,
          lambda = [''Fn1'', ''edge-lambda-stack-eu-west-1''],
          permissionsNode = [''Fn1'', ''edge-lambda-stack-eu-west-1''],
          facade_role = None, version = Literal ''1'',
          functionStack = [''edge-lambda-stack-eu-west-1''],
          currentVersion = CurrentVersion [''Fn1'', ''edge-lambda-stack-eu-west-1'']\<rparr>"
  by (simp add: example_Fn1_def model_defs example_defs)

lemma example_Fn1_ok:
  "EdgeFunction_new example_host [''StackA''] ''Fn1'' example_props example_app =
     (Inr (projr (fst example_Fn1)), snd example_Fn1)"
  using pair_of_Inr[OF example_Fn1_value] by (simp only: example_Fn1_def)

lemma example_Fn2_value:
  "fst example_Fn2 =
     Inr \<lparr>node = [''Fn2'', ''StackA''], stack = [''StackA''],
          stack_region = Known ''eu-west-1'',
          stack_synthesizer = Some LegacyStackSynthesizer,
          env_region = Known ''eu-west-1'',
          edgeArn = AttString [''ArnReader'', ''Fn2'', ''StackA''] ''FunctionArn'',
          functionName = FunctionNameOf [''Fn2'', ''edge-lambda-stack-eu-west-1''],
          functionArn = AttString [''ArnReader'', ''Fn2'', ''StackA''] ''FunctionArn'',
          grantPrincipal = Some (RoleAt [''Fn2ServiceRole'', ''edge-lambda-stack-eu-west-1'']),
          isBoundToVpc = False,
          lambda = [''Fn2'', ''edge-lambda-stack-eu-west-1''],
          permissionsNode = [''Fn2'', ''edge-lambda-stack-eu-west-1''],
          facade_role = None, version = Literal ''1'',
          functionStack = [''edge-lambda-stack-eu-west-1''],
          currentVersion = CurrentVersion [''Fn2'', ''edge-lambda-stack-eu-west-1'']\<rparr>"
  by (simp add: example_Fn2_def example_Fn1_def model_defs example_defs)

lemma example_Fn3_value:
  "fst example_Fn3 =
     Inr \<lparr>node = [''Fn3'', ''StackB''], stack = [''StackB''],
          stack_region = Known ''ap-south-1'',
          stack_synthesizer = Some (DefaultStackSynthesizer ''deploy'' ''exec''),
          env_region = Known ''ap-south-1'',
          edgeArn = AttString [''ArnReader'', ''Fn3'', ''StackB''] ''FunctionArn'',
          functionName = FunctionNameOf [''Fn3'', ''edge-lambda-stack-ap-south-1''],
          functionArn = AttString [''ArnReader'', ''Fn3'', ''StackB''] ''FunctionArn'',
          grantPrincipal = Some (RoleAt [''Fn3ServiceRole'', ''edge-lambda-stack-ap-south-1'']),
          isBoundToVpc = False,
          lambda = [''Fn3'', ''edge-lambda-stack-ap-south-1''],
          permissionsNode = [''Fn3'', ''edge-lambda-stack-ap-south-1''],
          facade_role = None, version = Literal ''1'',
          functionStack = [''edge-lambda-stack-ap-south-1''],
          currentVersion = CurrentVersion [''Fn3'', ''edge-lambda-stack-ap-south-1'']\<rparr>"
  by (simp add: example_Fn3_def example_Fn1_def model_defs example_defs)

lemma example_in_region_value:
  "fst example_in_region =
     Inr \<lparr>node = [''Fn1'', ''StackE''], stack = [''StackE''],
          stack_region = Known ''us-east-1'',
          stack_synthesizer = Some LegacyStackSynthesizer,
          env_region = Known ''us-east-1'',
          edgeArn = EdgeArnOf (CurrentVersion [''Fn'', ''Fn1'', ''StackE'']),
          functionName = FunctionNameOf [''Fn'', ''Fn1'', ''StackE''],
          functionArn = EdgeArnOf (CurrentVersion [''Fn'', ''Fn1'', ''StackE'']),
          grantPrincipal = Some (RoleAt [''Fn1ServiceRole'', ''Fn1'', ''StackE'']),
          isBoundToVpc = False, lambda = [''Fn'', ''Fn1'', ''StackE''],
          permissionsNode = [''Fn'', ''Fn1'', ''StackE''], facade_role = None,
          version = Literal ''1'', functionStack = [''StackE''],
          currentVersion = CurrentVersion [''Fn'', ''Fn1'', ''StackE'']\<rparr>"
  by (simp add: example_in_region_def model_defs example_defs)

lemma example_alias_value:
  "fst example_alias = Inr [''Aliaslive'', ''edge-lambda-stack-eu-west-1'']"
  by (simp add: example_alias_def addAlias_def example_Fn1_def model_defs example_defs)

lemma example_alias_ok:
  "addAlias (projr (fst example_Fn1)) ''live'' None (snd example_Fn1) =
     (Inr (projr (fst example_alias)), snd example_alias)"
  using pair_of_Inr[OF example_alias_value] by (simp only: example_alias_def)

lemma example_in_region_ok:
  "EdgeFunction_new example_host [''StackE''] ''Fn1'' example_props example_app =
     (Inr (projr (fst example_in_region)), snd example_in_region)"
  using pair_of_Inr[OF example_in_region_value] by (simp only: example_in_region_def)

lemma well_formed_example: "well_formed example_app"
  by (auto simp: well_formed_def example_app_def split: if_splits)

lemma example_Fn2_ok:
  "EdgeFunction_new example_host [''StackA''] ''Fn2'' example_props (snd example_Fn1) =
     (Inr (projr (fst example_Fn2)), snd example_Fn2)"
  using pair_of_Inr[OF example_Fn2_value] by (simp only: example_Fn2_def)

lemma example_Fn3_ok:
  "EdgeFunction_new example_host [''StackB''] ''Fn3'' example_props (snd example_Fn1) =
     (Inr (projr (fst example_Fn3)), snd example_Fn3)"
  using pair_of_Inr[OF example_Fn3_value] by (simp only: example_Fn3_def)

section \<open>Placement\<close>

text \<open>
  C3. For every EdgeFunction whose stack region is concretely known and equals \<open>us-east-1\<close>
  (created under a new name in a well-formed graph), construction succeeds on the in-region
  path: the underlying Function is the child \<open>Fn\<close> of the facade, in the caller's own
  stack; the owning stack is the caller's stack; the resolved identifier is the \<open>edgeArn\<close>
  of the function's own current version; no dependency and no provider is registered, only
  the facade, its function and its default role are added to the tree, and so no
  cross-region support stack is created.
\<close>

theorem in_region_placement:
  assumes wf: "well_formed g" and fresh: "tree g (id' # scope) = None"
    and st: "stack_of (tree g) scope = Some (st, Known ''us-east-1'', syn)"
  shows "\<exists>f g'. EdgeFunction_new h scope id' props g = (Inr f, g') \<and>
           lambda f = ''Fn'' # id' # scope \<and>
           tree g' (lambda f) = Some (Function (props\<lparr>role := grantPrincipal f\<rparr>)) \<and>
           stack_of (tree g') (lambda f) = Some (st, Known ''us-east-1'', syn) \<and>
           stack f = st \<and> functionStack f = st \<and>
           currentVersion f = CurrentVersion (lambda f) \<and>
           edgeArn f = EdgeArnOf (currentVersion f) \<and>
           dependencies g' = dependencies g \<and> providers g' = providers g \<and>
           (\<forall>p. tree g' p \<noteq> tree g p \<longrightarrow>
                p = id' # scope \<or> p = ''Fn'' # id' # scope \<or>
                p = (id' @ ''ServiceRole'') # id' # scope) \<and>
           (\<forall>p sp. tree g' p = Some (CrossRegionLambdaStack sp) \<longrightarrow>
                tree g p = Some (CrossRegionLambdaStack sp))"
proof -
  have ch: "\<And>x. tree g (x # id' # scope) = None"
    by (rule well_formed_childless[OF wf fresh])
  define r where "r = (case role props of Some given \<Rightarrow> given
                       | None \<Rightarrow> RoleAt ((id' @ ''ServiceRole'') # id' # scope))"
  define t1 where "t1 = (case role props of
                          Some given \<Rightarrow> (tree g)(id' # scope \<mapsto> EdgeFunctionResource)
                        | None \<Rightarrow> (tree g)(id' # scope \<mapsto> EdgeFunctionResource,
                                    (id' @ ''ServiceRole'') # id' # scope \<mapsto> defaultRole))"
  define f where "f =
       \<lparr>node = id' # scope, stack = st, stack_region = Known ''us-east-1'',
        stack_synthesizer = syn, env_region = Known ''us-east-1'',
        edgeArn = EdgeArnOf (CurrentVersion (''Fn'' # id' # scope)),
        functionName = FunctionNameOf (''Fn'' # id' # scope),
        functionArn = EdgeArnOf (CurrentVersion (''Fn'' # id' # scope)),
        grantPrincipal = Some r,
        isBoundToVpc = False,
        lambda = ''Fn'' # id' # scope,
        permissionsNode = ''Fn'' # id' # scope,
        facade_role = None,
        version = extractQualifierFromArn h (EdgeArnOf (CurrentVersion (''Fn'' # id' # scope))),
        functionStack = st,
        currentVersion = CurrentVersion (''Fn'' # id' # scope)\<rparr>"
  define g' where "g' = g\<lparr>tree := t1(''Fn'' # id' # scope \<mapsto> Function (props\<lparr>role := Some r\<rparr>))\<rparr>"
  have ev: "EdgeFunction_new h scope id' props g = (Inr f, g')"
    by (cases "role props")
       (simp_all add: EdgeFunction_new_def Resource_new_def Construct_new_def andThen_def
          returns_def regionIsUsEast1_def createInRegionFunction_def roleOrDefault_def
          defaultLambdaRole_def Function_role_def stack_of_new_facade fresh st ch
          serviceRole_not_Fn r_def t1_def f_def g'_def del: stack_of.simps)
  have t1_stack: "stack_of t1 scope = stack_of (tree g) scope"
    by (cases "role props") (simp_all add: t1_def stack_of_shorter)
  have t1_facade: "t1 (id' # scope) = Some EdgeFunctionResource"
    by (cases "role props") (simp_all add: t1_def)
  have so: "stack_of (tree g') (''Fn'' # id' # scope) = Some (st, Known ''us-east-1'', syn)"
    by (simp add: g'_def stack_at_def t1_facade stack_of_shorter t1_stack st)
  have frame: "\<forall>p. tree g' p \<noteq> tree g p \<longrightarrow>
                p = id' # scope \<or> p = ''Fn'' # id' # scope \<or>
                p = (id' @ ''ServiceRole'') # id' # scope"
    by (cases "role props") (simp_all add: g'_def t1_def)
  have nostack: "\<forall>p sp. tree g' p = Some (CrossRegionLambdaStack sp) \<longrightarrow>
                tree g p = Some (CrossRegionLambdaStack sp)"
    by (cases "role props") (simp_all add: g'_def t1_def)
  show ?thesis
    apply (rule exI[of _ f], rule exI[of _ g'])
    apply (intro conjI)
    subgoal by (rule ev)
    subgoal by (simp add: f_def)
    subgoal by (simp add: f_def g'_def)
    subgoal using so by (simp add: f_def)
    subgoal by (simp add: f_def)
    subgoal by (simp add: f_def)
    subgoal by (simp add: f_def)
    subgoal by (simp add: f_def)
    subgoal by (simp add: g'_def)
    subgoal by (simp add: g'_def)
    subgoal by (rule frame)
    subgoal by (rule nostack)
    done
qed

theorem in_region_placement_witness:
  "well_formed example_app \<and>
   tree example_app [''Fn1'', ''StackE''] = None \<and>
   stack_of (tree example_app) [''StackE''] =
     Some ([''StackE''], Known ''us-east-1'', Some LegacyStackSynthesizer) \<and>
   (\<exists>f g'. EdgeFunction_new example_host [''StackE''] ''Fn1'' example_props example_app = (Inr f, g') \<and>
      lambda f = [''Fn'', ''Fn1'', ''StackE''] \<and>
      tree g' (lambda f) = Some (Function (example_props\<lparr>role := grantPrincipal f\<rparr>)) \<and>
      stack_of (tree g') (lambda f) =
        Some ([''StackE''], Known ''us-east-1'', Some LegacyStackSynthesizer) \<and>
      stack f = [''StackE''] \<and> functionStack f = [''StackE''] \<and>
      currentVersion f = CurrentVersion (lambda f) \<and>
      edgeArn f = EdgeArnOf (currentVersion f) \<and>
      dependencies g' = dependencies example_app \<and> providers g' = providers example_app \<and>
      (\<forall>p. tree g' p \<noteq> tree example_app p \<longrightarrow>
           p = [''Fn1'', ''StackE''] \<or> p = [''Fn'', ''Fn1'', ''StackE''] \<or>
           p = [''Fn1'' @ ''ServiceRole'', ''Fn1'', ''StackE'']) \<and>
      (\<forall>p sp. tree g' p = Some (CrossRegionLambdaStack sp) \<longrightarrow>
           tree example_app p = Some (CrossRegionLambdaStack sp)))"
proof -
  have fresh: "tree example_app [''Fn1'', ''StackE''] = None"
    by (simp add: example_app_def)
  have st: "stack_of (tree example_app) [''StackE''] =
     Some ([''StackE''], Known ''us-east-1'', Some LegacyStackSynthesizer)"
    by (simp add: example_app_def stack_at_def)
  show ?thesis
    using in_region_placement[OF well_formed_example fresh st, of example_host example_props]
      well_formed_example fresh st
    by simp
qed

text \<open>
  C2. Constructing an EdgeFunction on the cross-region path (the caller's stack region is
  not the known \<open>us-east-1\<close>) throws a configuration error whenever the root of the tree is
  not a Stage, and whenever the caller's region is an unresolved token. The error is thrown
  before anything is created for the facade: the graph at the throw is the initial graph
  with the facade node alone attached to its scope, with no support stack, function,
  parameter, custom resource or stack dependency.
\<close>

theorem configuration_error_before_any_child:
  assumes fresh: "tree g (id' # scope) = None"
    and st: "stack_of (tree g) scope = Some (st, rg, syn)"
    and cross: "rg \<noteq> Known ''us-east-1''"
    and bad: "\<not> rootIsStage g \<or> isUnresolved rg"
  shows "EdgeFunction_new h scope id' props g =
           (Inl (Error (if rootIsStage g
                        then ''stacks which use EdgeFunctions must have an explicitly set region''
                        else ''stacks which use EdgeFunctions must be part of a CDK app or stage'')),
            g\<lparr>tree := (tree g)(id' # scope \<mapsto> EdgeFunctionResource)\<rparr>)"
proof -
  have r: "Resource_new scope id' EdgeFunctionResource g =
             (Inr \<lparr>node = id' # scope, stack = st, stack_region = rg,
                   stack_synthesizer = syn, env_region = rg\<rparr>,
              g\<lparr>tree := (tree g)(id' # scope \<mapsto> EdgeFunctionResource)\<rparr>)"
    by (simp add: Resource_new_def Construct_new_def andThen_def fresh stack_of_new_facade st
          del: stack_of.simps)
  have e: "edgeStack \<lparr>node = id' # scope, stack = st, stack_region = rg,
                      stack_synthesizer = syn, env_region = rg\<rparr>
             (g\<lparr>tree := (tree g)(id' # scope \<mapsto> EdgeFunctionResource)\<rparr>) =
           (Inl (Error (if rootIsStage g
                        then ''stacks which use EdgeFunctions must have an explicitly set region''
                        else ''stacks which use EdgeFunctions must be part of a CDK app or stage'')),
            g\<lparr>tree := (tree g)(id' # scope \<mapsto> EdgeFunctionResource)\<rparr>)"
    using bad
    by (cases rg; cases "tree g root")
       (simp_all add: edgeStack_def rootIsStage_def root_def)
  show ?thesis
    using cross
    by (simp add: EdgeFunction_new_def andThen_def r regionIsUsEast1_def
          createCrossRegionFunction_def e)
qed

theorem configuration_error_before_any_child_witness:
  "tree example_app [''Fn1'', ''StackT''] = None \<and>
   stack_of (tree example_app) [''StackT''] =
     Some ([''StackT''], Deferred 0, Some LegacyStackSynthesizer) \<and>
   Deferred 0 \<noteq> Known ''us-east-1'' \<and>
   rootIsStage example_app \<and> isUnresolved (Deferred 0) \<and>
   EdgeFunction_new example_host [''StackT''] ''Fn1'' example_props example_app =
     (Inl (Error ''stacks which use EdgeFunctions must have an explicitly set region''),
      example_app\<lparr>tree := (tree example_app)([''Fn1'', ''StackT''] \<mapsto> EdgeFunctionResource)\<rparr>) \<and>
   tree example_stack_only [''Fn1''] = None \<and>
   stack_of (tree example_stack_only) [] =
     Some ([], Known ''eu-west-1'', Some LegacyStackSynthesizer) \<and>
   Known ''eu-west-1'' \<noteq> Known ''us-east-1'' \<and>
   \<not> rootIsStage example_stack_only \<and>
   EdgeFunction_new example_host [] ''Fn1'' example_props example_stack_only =
     (Inl (Error ''stacks which use EdgeFunctions must be part of a CDK app or stage''),
      example_stack_only\<lparr>tree := (tree example_stack_only)([''Fn1''] \<mapsto> EdgeFunctionResource)\<rparr>)"
proof -
  have f1: "tree example_app [''Fn1'', ''StackT''] = None"
    by (simp add: example_app_def)
  have s1: "stack_of (tree example_app) [''StackT''] =
     Some ([''StackT''], Deferred 0, Some LegacyStackSynthesizer)"
    by (simp add: example_app_def stack_at_def)
  have c1: "Deferred 0 \<noteq> Known ''us-east-1''" by simp
  have b1: "\<not> rootIsStage example_app \<or> isUnresolved (Deferred 0)" by simp
  have stage1: "rootIsStage example_app"
    by (simp add: rootIsStage_def root_def isStage_def example_app_def)
  have f2: "tree example_stack_only [''Fn1''] = None"
    by (simp add: example_stack_only_def)
  have s2: "stack_of (tree example_stack_only) [] =
     Some ([], Known ''eu-west-1'', Some LegacyStackSynthesizer)"
    by (simp add: example_stack_only_def stack_at_def)
  have c2: "Known ''eu-west-1'' \<noteq> Known ''us-east-1''" by simp
  have stage2: "\<not> rootIsStage example_stack_only"
    by (simp add: rootIsStage_def root_def isStage_def example_stack_only_def)
  then have b2: "\<not> rootIsStage example_stack_only \<or> isUnresolved (Known ''eu-west-1'')" by simp
  show ?thesis
    using configuration_error_before_any_child[OF f1 s1 c1 b1, of example_host example_props]
      configuration_error_before_any_child[OF f2 s2 c2 b2, of example_host example_props]
      f1 s1 f2 s2 stage1 stage2
    by simp
qed

section \<open>The support stack\<close>

text \<open>
  C1, as the claim states it, fails: the lookup key is not a function of the target region
  alone. Two facades of one application, in stacks of two different regions, both placed in
  the target region \<open>us-east-1\<close>, get two different support stacks, both in \<open>us-east-1\<close>.
\<close>

theorem one_stack_per_target_region_counterexample:
  "EdgeFunction_new example_host [''StackA''] ''Fn1'' example_props example_app =
     (Inr (projr (fst example_Fn1)), snd example_Fn1) \<and>
   EdgeFunction_new example_host [''StackB''] ''Fn3'' example_props (snd example_Fn1) =
     (Inr (projr (fst example_Fn3)), snd example_Fn3) \<and>
   functionStack (projr (fst example_Fn1)) = [''edge-lambda-stack-eu-west-1''] \<and>
   functionStack (projr (fst example_Fn3)) = [''edge-lambda-stack-ap-south-1''] \<and>
   functionStack (projr (fst example_Fn1)) \<noteq> functionStack (projr (fst example_Fn3)) \<and>
   tree (snd example_Fn3) [''edge-lambda-stack-eu-west-1''] =
     Some (CrossRegionLambdaStack \<lparr>synthesizer = None, env = Known ''us-east-1''\<rparr>) \<and>
   tree (snd example_Fn3) [''edge-lambda-stack-ap-south-1''] =
     Some (CrossRegionLambdaStack
            \<lparr>synthesizer = Some (BootstraplessSynthesizer ''deploy'' ''exec''),
             env = Known ''us-east-1''\<rparr>)"
proof -
  have a: "tree (snd example_Fn3) [''edge-lambda-stack-eu-west-1''] =
     Some (CrossRegionLambdaStack \<lparr>synthesizer = None, env = Known ''us-east-1''\<rparr>)"
    by (simp add: example_Fn3_def example_Fn1_def model_defs example_defs)
  have b: "tree (snd example_Fn3) [''edge-lambda-stack-ap-south-1''] =
     Some (CrossRegionLambdaStack
            \<lparr>synthesizer = Some (BootstraplessSynthesizer ''deploy'' ''exec''),
             env = Known ''us-east-1''\<rparr>)"
    by (simp add: example_Fn3_def example_Fn1_def model_defs example_defs)
  show ?thesis
    using example_Fn1_ok example_Fn3_ok a b
    by (simp add: example_Fn1_value example_Fn3_value)
qed

text \<open>
  C1, amended. The lookup key is \<open>edge-lambda-stack-\<close> followed by the caller's own region:
  a function of the caller's region only, not of the caller's identity (scope, id, props).
  For any two successful cross-region constructions in the same application, the second
  gets the identical support stack (same path, the node the first one found or created)
  exactly when the two callers' regions are equal: at most one support stack per
  application root and caller region.
\<close>

theorem support_stack_keyed_by_caller_region:
  assumes c1: "EdgeFunction_new h1 scope1 id1 props1 g = (Inr f1, g1)"
    and grow: "tree g1 \<subseteq>\<^sub>m tree g1'"
    and c2: "EdgeFunction_new h2 scope2 id2 props2 g1' = (Inr f2, g2)"
    and r1: "stack_region f1 = Known r1" and x1: "r1 \<noteq> ''us-east-1''"
    and r2: "stack_region f2 = Known r2" and x2: "r2 \<noteq> ''us-east-1''"
  shows "functionStack f1 = [edgeStackId r1] \<and> functionStack f2 = [edgeStackId r2] \<and>
         (functionStack f1 = functionStack f2 \<longleftrightarrow> r1 = r2) \<and>
         (\<exists>sp. tree g1 (functionStack f1) = Some (CrossRegionLambdaStack sp) \<and>
               tree g2 (functionStack f1) = Some (CrossRegionLambdaStack sp))"
proof -
  from r1 x1 have n1: "stack_region f1 \<noteq> Known ''us-east-1''" by simp
  from r2 x2 have n2: "stack_region f2 \<noteq> Known ''us-east-1''" by simp
  from cross_region_facts[OF c1 n1] obtain region1 ra sp1 where
    a: "stack_region f1 = Known region1" "functionStack f1 = [edgeStackId region1]"
       "tree g1 [edgeStackId region1] = Some (CrossRegionLambdaStack sp1)"
    by (elim exE conjE) (rule that)
  from cross_region_facts[OF c2 n2] obtain region2 rb sp2 where
    b: "stack_region f2 = Known region2" "functionStack f2 = [edgeStackId region2]"
       "tree g1' \<subseteq>\<^sub>m tree g2"
    by (elim exE conjE) (rule that)
  from a r1 have e1: "region1 = r1" by simp
  from b r2 have e2: "region2 = r2" by simp
  have kept: "tree g2 [edgeStackId region1] = Some (CrossRegionLambdaStack sp1)"
    by (rule tree_le_Some[OF b(3) tree_le_Some[OF grow a(3)]])
  show ?thesis
    apply (intro conjI)
    subgoal using a e1 by simp
    subgoal using b e2 by simp
    subgoal using a b e1 e2 by (simp add: edgeStackId_def)
    subgoal using a(3) kept by (simp add: a(2))
    done
qed

theorem support_stack_keyed_by_caller_region_witness:
  "EdgeFunction_new example_host [''StackA''] ''Fn1'' example_props example_app =
     (Inr (projr (fst example_Fn1)), snd example_Fn1) \<and>
   tree (snd example_Fn1) \<subseteq>\<^sub>m tree (snd example_Fn1) \<and>
   EdgeFunction_new example_host [''StackA''] ''Fn2'' example_props (snd example_Fn1) =
     (Inr (projr (fst example_Fn2)), snd example_Fn2) \<and>
   stack_region (projr (fst example_Fn1)) = Known ''eu-west-1'' \<and>
   stack_region (projr (fst example_Fn2)) = Known ''eu-west-1'' \<and>
   ''eu-west-1'' \<noteq> ''us-east-1'' \<and>
   functionStack (projr (fst example_Fn1)) = [''edge-lambda-stack-eu-west-1''] \<and>
   functionStack (projr (fst example_Fn2)) = functionStack (projr (fst example_Fn1)) \<and>
   (\<exists>sp. tree (snd example_Fn1) (functionStack (projr (fst example_Fn1))) =
           Some (CrossRegionLambdaStack sp) \<and>
         tree (snd example_Fn2) (functionStack (projr (fst example_Fn1))) =
           Some (CrossRegionLambdaStack sp))"
proof -
  have r1: "stack_region (projr (fst example_Fn1)) = Known ''eu-west-1''"
    by (simp add: example_Fn1_value)
  have r2: "stack_region (projr (fst example_Fn2)) = Known ''eu-west-1''"
    by (simp add: example_Fn2_value)
  have x: "''eu-west-1'' \<noteq> ''us-east-1''" by simp
  show ?thesis
    using support_stack_keyed_by_caller_region[OF example_Fn1_ok map_le_refl example_Fn2_ok r1 x r2 x]
      example_Fn1_ok example_Fn2_ok r1 r2
    by (auto simp: edgeStackId_def)
qed

section \<open>Published parameters\<close>

text \<open>
  C4. For two cross-region facades with distinct ids the parameter names are distinct, each
  parameter holds its own function's current version's \<open>edgeArn\<close>, and each reader reads
  its own parameter name; the read access is not each facade's own. Every facade passes a
  policy statement for its own parameter's ARN, but the provider is found or created once
  per stack and tag, so the second facade of a stack finds the provider of the first and
  its own statement is dropped. At \<open>Fn1\<close> then \<open>Fn2\<close> in \<open>StackA\<close>: both readers carry the
  one provider's token, the registry holds that provider alone, and its only statement
  allows reading the ARN of \<open>EdgeFunctionArnFn1\<close>, which is not the ARN of
  \<open>EdgeFunctionArnFn2\<close>.
\<close>

theorem second_reader_has_first_policy:
  "EdgeFunction_new example_host [''StackA''] ''Fn1'' example_props example_app =
     (Inr (projr (fst example_Fn1)), snd example_Fn1) \<and>
   EdgeFunction_new example_host [''StackA''] ''Fn2'' example_props (snd example_Fn1) =
     (Inr (projr (fst example_Fn2)), snd example_Fn2) \<and>
   parameterName ''Fn1'' = ''EdgeFunctionArnFn1'' \<and>
   parameterName ''Fn2'' = ''EdgeFunctionArnFn2'' \<and>
   tree (snd example_Fn2) [''Parameter'', ''Fn1'', ''edge-lambda-stack-eu-west-1''] =
     Some (StringParameter ''EdgeFunctionArnFn1''
            (EdgeArnOf (CurrentVersion [''Fn1'', ''edge-lambda-stack-eu-west-1'']))) \<and>
   tree (snd example_Fn2) [''Parameter'', ''Fn2'', ''edge-lambda-stack-eu-west-1''] =
     Some (StringParameter ''EdgeFunctionArnFn2''
            (EdgeArnOf (CurrentVersion [''Fn2'', ''edge-lambda-stack-eu-west-1'']))) \<and>
   tree (snd example_Fn2) [''ArnReader'', ''Fn1'', ''StackA''] =
     Some (CustomResource resourceType (ServiceToken [''StackA''] resourceType)
            \<lparr>Region = ''us-east-1'', ParameterName = ''EdgeFunctionArnFn1'',
             RefreshEachDeploy = now_string example_host\<rparr>) \<and>
   tree (snd example_Fn2) [''ArnReader'', ''Fn2'', ''StackA''] =
     Some (CustomResource resourceType (ServiceToken [''StackA''] resourceType)
            \<lparr>Region = ''us-east-1'', ParameterName = ''EdgeFunctionArnFn2'',
             RefreshEachDeploy = now_string example_host\<rparr>) \<and>
   dom (providers (snd example_Fn2)) = {([''StackA''], resourceType)} \<and>
   providers (snd example_Fn2) ([''StackA''], resourceType) =
     Some \<lparr>codeDirectory = edge_function_dir example_host, provider_runtime = ''nodejs12.x'',
           policyStatements =
             [\<lparr>Effect = ''Allow'', Resource = parameterArn [''StackA''] ''Fn1'',
               Action = [''ssm:GetParameter'']\<rparr>]\<rparr> \<and>
   parameterArn [''StackA''] ''Fn1'' \<noteq> parameterArn [''StackA''] ''Fn2''"
proof -
  have p1: "tree (snd example_Fn2) [''Parameter'', ''Fn1'', ''edge-lambda-stack-eu-west-1''] =
     Some (StringParameter ''EdgeFunctionArnFn1''
            (EdgeArnOf (CurrentVersion [''Fn1'', ''edge-lambda-stack-eu-west-1''])))"
    by (simp add: example_Fn2_def example_Fn1_def model_defs example_defs)
  have p2: "tree (snd example_Fn2) [''Parameter'', ''Fn2'', ''edge-lambda-stack-eu-west-1''] =
     Some (StringParameter ''EdgeFunctionArnFn2''
            (EdgeArnOf (CurrentVersion [''Fn2'', ''edge-lambda-stack-eu-west-1''])))"
    by (simp add: example_Fn2_def example_Fn1_def model_defs example_defs)
  have r1: "tree (snd example_Fn2) [''ArnReader'', ''Fn1'', ''StackA''] =
     Some (CustomResource resourceType (ServiceToken [''StackA''] resourceType)
            \<lparr>Region = ''us-east-1'', ParameterName = ''EdgeFunctionArnFn1'',
             RefreshEachDeploy = now_string example_host\<rparr>)"
    by (simp add: example_Fn2_def example_Fn1_def model_defs example_defs)
  have r2: "tree (snd example_Fn2) [''ArnReader'', ''Fn2'', ''StackA''] =
     Some (CustomResource resourceType (ServiceToken [''StackA''] resourceType)
            \<lparr>Region = ''us-east-1'', ParameterName = ''EdgeFunctionArnFn2'',
             RefreshEachDeploy = now_string example_host\<rparr>)"
    by (simp add: example_Fn2_def example_Fn1_def model_defs example_defs)
  have pr: "providers (snd example_Fn2) =
     [([''StackA''], resourceType) \<mapsto>
       \<lparr>codeDirectory = edge_function_dir example_host, provider_runtime = ''nodejs12.x'',
        policyStatements =
          [\<lparr>Effect = ''Allow'', Resource = parameterArn [''StackA''] ''Fn1'',
            Action = [''ssm:GetParameter'']\<rparr>]\<rparr>]"
    by (simp add: example_Fn2_def example_Fn1_def model_defs example_defs)
  have ne: "parameterArn [''StackA''] ''Fn1'' \<noteq> parameterArn [''StackA''] ''Fn2''"
    by (simp add: parameterArn_def parameterName_def)
  show ?thesis
    using example_Fn1_ok example_Fn2_ok p1 p2 r1 r2 ne
    by (simp add: pr parameterName_def)
qed

section \<open>The facade's public attributes\<close>

text \<open>
  C9. For every successfully constructed EdgeFunction, on both placement paths, the public
  \<open>functionArn\<close> equals the public \<open>edgeArn\<close>, and the public \<open>version\<close> is the qualifier
  extracted from that ARN. The identifier is the version-qualified one: the current
  version's \<open>edgeArn\<close> in-region, the \<open>FunctionArn\<close> attribute of the facade's reader
  resource cross-region; it is never the unqualified ARN of the function.
\<close>

theorem functionArn_is_edgeArn:
  assumes "EdgeFunction_new h scope id' props g = (Inr f, g')"
  shows "functionArn f = edgeArn f \<and>
         version f = extractQualifierFromArn h (functionArn f) \<and>
         edgeArn f = (if stack_region f = Known ''us-east-1''
                      then EdgeArnOf (currentVersion f)
                      else AttString (''ArnReader'' # node f) ''FunctionArn'')"
  using assms
  by (auto simp: EdgeFunction_new_Inr regionIsUsEast1_def createInRegionFunction_Inr
        createCrossRegionFunction_Inr)

theorem functionArn_is_edgeArn_witness:
  "EdgeFunction_new example_host [''StackA''] ''Fn1'' example_props example_app =
     (Inr (projr (fst example_Fn1)), snd example_Fn1) \<and>
   functionArn (projr (fst example_Fn1)) = edgeArn (projr (fst example_Fn1)) \<and>
   version (projr (fst example_Fn1)) =
     extractQualifierFromArn example_host (functionArn (projr (fst example_Fn1))) \<and>
   edgeArn (projr (fst example_Fn1)) = AttString [''ArnReader'', ''Fn1'', ''StackA''] ''FunctionArn''"
  using functionArn_is_edgeArn[OF example_Fn1_ok] example_Fn1_ok
  by (simp add: example_Fn1_value)

text \<open>
  C10. For every EdgeFunction the public \<open>isBoundToVpc\<close> attribute is false, unconditionally,
  even when the caller's props carry a VPC configuration: that configuration is forwarded
  to the underlying function as it is.
\<close>

theorem vpc_never_bound:
  assumes ok: "EdgeFunction_new h scope id' props g = (Inr f, g')"
  shows "isBoundToVpc f = False \<and>
         (\<exists>fp. tree g' (lambda f) = Some (Function fp) \<and> vpc fp = vpc props)"
proof -
  from EdgeFunction_new_fields[OF ok] have "isBoundToVpc f = False"
    by (elim exE conjE)
  moreover from underlying_function_facts[OF ok] obtain r where
    "tree g' (lambda f) = Some (Function (props\<lparr>role := Some r\<rparr>))"
    by (elim exE conjE) (rule that)
  then have "\<exists>fp. tree g' (lambda f) = Some (Function fp) \<and> vpc fp = vpc props"
    by simp
  ultimately show ?thesis by simp
qed

theorem vpc_never_bound_witness:
  "EdgeFunction_new example_host [''StackE''] ''Fn1'' example_props example_app =
     (Inr (projr (fst example_in_region)), snd example_in_region) \<and>
   vpc example_props = Some ''vpc-1'' \<and>
   isBoundToVpc (projr (fst example_in_region)) = False \<and>
   (\<exists>fp. tree (snd example_in_region) (lambda (projr (fst example_in_region))) = Some (Function fp) \<and>
         vpc fp = vpc example_props)"
  using vpc_never_bound[OF example_in_region_ok] example_in_region_ok
  by (simp add: example_props_def)

section \<open>The default role\<close>

text \<open>
  C8. When the caller supplies no role, the underlying function gets, on the in-region path
  as on the cross-region path, the role made by \<open>defaultLambdaRole\<close>: assumable by
  \<open>lambda.amazonaws.com\<close> and \<open>edgelambda.amazonaws.com\<close>, with the managed policy
  \<open>service-role/AWSLambdaBasicExecutionRole\<close>; it is a child of the facade in-region and of
  the support stack cross-region. When the caller supplies a role, the underlying function
  gets that role unchanged on either path.
\<close>

theorem role_default_or_given:
  assumes ok: "EdgeFunction_new h scope id' props g = (Inr f, g')"
  shows "case role props of
           Some given \<Rightarrow> Function_role g' (lambda f) = Some given
         | None \<Rightarrow>
             Function_role g' (lambda f) =
               Some (RoleAt ((id' @ ''ServiceRole'') #
                      (if stack_region f = Known ''us-east-1'' then node f else functionStack f))) \<and>
             tree g' ((id' @ ''ServiceRole'') #
                      (if stack_region f = Known ''us-east-1'' then node f else functionStack f)) =
               Some (Role [ServicePrincipal ''lambda.amazonaws.com'',
                           ServicePrincipal ''edgelambda.amazonaws.com'']
                          [AwsManagedPolicyName ''service-role/AWSLambdaBasicExecutionRole''])"
proof -
  from underlying_function_facts[OF ok] obtain r where
    fn: "tree g' (lambda f) = Some (Function (props\<lparr>role := Some r\<rparr>))" and
    rl: "case role props of
              Some given \<Rightarrow> r = given
            | None \<Rightarrow>
                r = RoleAt ((id' @ ''ServiceRole'') #
                      (if stack_region f = Known ''us-east-1'' then node f else functionStack f)) \<and>
                tree g' ((id' @ ''ServiceRole'') #
                      (if stack_region f = Known ''us-east-1'' then node f else functionStack f)) =
                  Some defaultRole"
    by (elim exE conjE) (rule that)
  from fn have "Function_role g' (lambda f) = Some r"
    by (simp add: Function_role_def)
  with rl show ?thesis
    by (auto split: option.splits)
qed

theorem role_default_or_given_witness:
  "EdgeFunction_new example_host [''StackA''] ''Fn1'' example_props example_app =
     (Inr (projr (fst example_Fn1)), snd example_Fn1) \<and>
   role example_props = None \<and>
   Function_role (snd example_Fn1) [''Fn1'', ''edge-lambda-stack-eu-west-1''] =
     Some (RoleAt [''Fn1ServiceRole'', ''edge-lambda-stack-eu-west-1'']) \<and>
   tree (snd example_Fn1) [''Fn1ServiceRole'', ''edge-lambda-stack-eu-west-1''] =
     Some (Role [ServicePrincipal ''lambda.amazonaws.com'',
                 ServicePrincipal ''edgelambda.amazonaws.com'']
                [AwsManagedPolicyName ''service-role/AWSLambdaBasicExecutionRole''])"
  using role_default_or_given[OF example_Fn1_ok] example_Fn1_ok
  by (simp add: example_props_def example_Fn1_value)

section \<open>Aliases\<close>

text \<open>
  C6. For every EdgeFunction, alias name and options, \<open>addAlias\<close> creates the alias as the
  child \<open>Alias<name>\<close> of the owning stack fixed at placement (the caller's own stack
  in-region, the support stack cross-region), never of the facade's own stack when the two
  differ, and the alias targets the stored current version.
\<close>

theorem addAlias_in_owning_stack:
  assumes ok: "EdgeFunction_new h scope id' props g = (Inr f, g1)"
    and made: "addAlias f aliasName options g2 = (Inr a, g3)"
  shows "a = (''Alias'' @ aliasName) # functionStack f \<and>
         tree g3 a =
           Some (Alias aliasName (currentVersion f)
                  (case options of
                     None \<Rightarrow> \<lparr>description = None, provisionedConcurrentExecutions = None\<rparr>
                   | Some given \<Rightarrow> given)) \<and>
         currentVersion f = CurrentVersion (lambda f) \<and>
         (\<exists>region. stack_region f = Known region \<and>
            functionStack f = (if region = ''us-east-1'' then stack f else [edgeStackId region])) \<and>
         (functionStack f \<noteq> stack f \<longrightarrow> a \<noteq> (''Alias'' @ aliasName) # stack f)"
proof -
  from made have a: "a = (''Alias'' @ aliasName) # functionStack f"
    and t: "tree g3 a =
           Some (Alias aliasName (currentVersion f)
                  (case options of
                     None \<Rightarrow> \<lparr>description = None, provisionedConcurrentExecutions = None\<rparr>
                   | Some given \<Rightarrow> given))"
    by (simp_all add: addAlias_def Construct_new_Inr)
  have own: "currentVersion f = CurrentVersion (lambda f) \<and>
         (\<exists>region. stack_region f = Known region \<and>
            functionStack f = (if region = ''us-east-1'' then stack f else [edgeStackId region]))"
  proof (cases "stack_region f = Known ''us-east-1''")
    case True
    from in_region_facts[OF ok True] obtain r where
      "functionStack f = stack f" "lambda f = ''Fn'' # id' # scope"
      "currentVersion f = CurrentVersion (''Fn'' # id' # scope)"
      by (elim exE conjE) (rule that)
    with True show ?thesis by simp
  next
    case False
    from cross_region_facts[OF ok False] obtain region r sp where
      "stack_region f = Known region" "functionStack f = [edgeStackId region]"
      "lambda f = [id', edgeStackId region]"
      "currentVersion f = CurrentVersion [id', edgeStackId region]"
      by (elim exE conjE) (rule that)
    with False show ?thesis by simp
  qed
  from a t own show ?thesis by simp
qed

theorem addAlias_in_owning_stack_witness:
  "EdgeFunction_new example_host [''StackA''] ''Fn1'' example_props example_app =
     (Inr (projr (fst example_Fn1)), snd example_Fn1) \<and>
   addAlias (projr (fst example_Fn1)) ''live'' None (snd example_Fn1) =
     (Inr (projr (fst example_alias)), snd example_alias) \<and>
   projr (fst example_alias) = [''Aliaslive'', ''edge-lambda-stack-eu-west-1''] \<and>
   stack (projr (fst example_Fn1)) = [''StackA''] \<and>
   tree (snd example_alias) [''Aliaslive'', ''edge-lambda-stack-eu-west-1''] =
     Some (Alias ''live'' (CurrentVersion [''Fn1'', ''edge-lambda-stack-eu-west-1''])
            \<lparr>description = None, provisionedConcurrentExecutions = None\<rparr>)"
  using addAlias_in_owning_stack[OF example_Fn1_ok example_alias_ok] example_Fn1_ok example_alias_ok
  by (simp add: example_Fn1_value example_alias_value edgeStackId_def)

section \<open>Accessors that are not supported, and metrics\<close>

text \<open>
  C5. For every EdgeFunction, whatever its placement, reading \<open>connections\<close> throws and
  reading \<open>latestVersion\<close> throws, each with its own descriptive message; neither returns
  a value.
\<close>

theorem unsupported_accessors_throw:
  "connections f = Inl (Error ''Lambda@Edge does not support connections'') \<and>
   latestVersion f = Inl (Error ''$LATEST function version cannot be used for Lambda@Edge'')"
  by (simp add: connections_def latestVersion_def)

text \<open>
  C7. Every metric accessor of the facade (\<open>metric\<close>, \<open>metricDuration\<close>, \<open>metricErrors\<close>,
  \<open>metricInvocations\<close>, \<open>metricThrottles\<close>) forwards to the underlying function with the
  \<open>region\<close> option set to \<open>us-east-1\<close>, whatever the caller's region and whatever region
  the caller put in the options; the other options are passed as given.
\<close>

theorem metrics_use_edge_region:
  "metric m f metricName props = m (lambda f) metricName (withEdgeRegion props) \<and>
   metricDuration d f props = d (lambda f) (withEdgeRegion props) \<and>
   metricErrors e f props = e (lambda f) (withEdgeRegion props) \<and>
   metricInvocations n f props = n (lambda f) (withEdgeRegion props) \<and>
   metricThrottles t f props = t (lambda f) (withEdgeRegion props) \<and>
   metric_region (withEdgeRegion props) = Some ''us-east-1'' \<and>
   withEdgeRegion (Some given) = given\<lparr>metric_region := Some ''us-east-1''\<rparr> \<and>
   withEdgeRegion None =
     \<lparr>period = None, statistic = None, label = None, metric_region = Some ''us-east-1''\<rparr>"
  by (simp add: metric_def metricDuration_def metricErrors_def metricInvocations_def
        metricThrottles_def withEdgeRegion_def EDGE_REGION_def split: option.splits)

end
